theory Spec2Isabelle
  imports Main
begin

section \<open>Python values\<close>

text \<open>
  \<^verbatim>\<open>json_ast.py\<close> walks the tree that \<^verbatim>\<open>ast.parse\<close> returns and builds nested
  \<^verbatim>\<open>dict\<close>s and \<^verbatim>\<open>list\<close>s. Python is dynamically typed, so the tree and the result
  live in one universe of objects. An AST node is its class name, its fields (the
  class's \<^verbatim>\<open>_fields\<close>, in order) and its attributes (\<^verbatim>\<open>_attributes\<close>: the position
  information, which only statement, expression and a few other classes carry).
  A \<^verbatim>\<open>dict\<close> keeps its keys in insertion order, so it is an association list.
  \<open>PyBytes\<close> is a \<^verbatim>\<open>bytes\<close> constant, and \<open>PyOpaque c r\<close> an object of class \<open>c\<close> that
  the walker only copies and that cannot be iterated over (a \<^verbatim>\<open>float\<close> or \<^verbatim>\<open>complex\<close>
  constant, or \<^verbatim>\<open>Ellipsis\<close>).
\<close>

datatype pyobj =
    PyNone
  | PyBool bool
  | PyInt int
  | PyStr string
  | PyBytes "nat list"
  | PyOpaque string string
  | PyList "pyobj list"
  | PyDict "(string \<times> pyobj) list"
  | PyAST string "(string \<times> pyobj) list" "(string \<times> pyobj) list"

type_synonym dictast = "(string \<times> pyobj) list"

text \<open>\<^verbatim>\<open>node.__class__.__name__\<close>\<close>

fun class_name :: "pyobj \<Rightarrow> string" where
  "class_name PyNone = ''NoneType''"
| "class_name (PyBool b) = ''bool''"
| "class_name (PyInt i) = ''int''"
| "class_name (PyStr s) = ''str''"
| "class_name (PyBytes bs) = ''bytes''"
| "class_name (PyOpaque c r) = c"
| "class_name (PyList xs) = ''list''"
| "class_name (PyDict d) = ''dict''"
| "class_name (PyAST c fs as) = c"

fun is_AST :: "pyobj \<Rightarrow> bool" where
  "is_AST (PyAST c fs as) = True"
| "is_AST v = False"

text \<open>
  \<^verbatim>\<open>getattr(node, k)\<close> for the names the walker reads: a field or an attribute of
  an AST node; \<open>None\<close> is Python's \<^verbatim>\<open>AttributeError\<close>.
\<close>

fun getattr :: "pyobj \<Rightarrow> string \<Rightarrow> pyobj option" where
  "getattr (PyAST c fs as) k = map_of (fs @ as) k"
| "getattr v k = None"

definition hasattr :: "pyobj \<Rightarrow> string \<Rightarrow> bool" where
  "hasattr node k = (getattr node k \<noteq> None)"

text \<open>
  What a \<^verbatim>\<open>for\<close> loop, a comprehension or \<^verbatim>\<open>map\<close> gets from an object: the items of a
  list, the characters of a string (each a string of length one), the bytes of a
  \<^verbatim>\<open>bytes\<close> object (each an \<^verbatim>\<open>int\<close>), the keys of a dict. No other object here can be
  iterated over (an AST node cannot).
\<close>

fun iterable :: "pyobj \<Rightarrow> bool" where
  "iterable (PyList xs) = True"
| "iterable (PyStr s) = True"
| "iterable (PyBytes bs) = True"
| "iterable (PyDict d) = True"
| "iterable v = False"

fun elems :: "pyobj \<Rightarrow> pyobj list" where
  "elems (PyList xs) = xs"
| "elems (PyStr s) = map (\<lambda>c. PyStr [c]) s"
| "elems (PyBytes bs) = map (\<lambda>b. PyInt (int b)) bs"
| "elems (PyDict d) = map (\<lambda>(k, v). PyStr k) d"
| "elems v = []"

text \<open>The objects directly below an object: its field and attribute values, and
  the items of those that can be iterated over.\<close>

fun attr_values :: "pyobj \<Rightarrow> pyobj list" where
  "attr_values (PyAST c fs as) = map snd (fs @ as)"
| "attr_values v = []"

definition children :: "pyobj \<Rightarrow> pyobj set" where
  "children node = set (attr_values node) \<union> (\<Union>v \<in> set (attr_values node). set (elems v))"

section \<open>Dictionaries\<close>

text \<open>\<^verbatim>\<open>d[k] = v\<close>: an existing key keeps its place, a new key goes last.\<close>

fun dict_set :: "dictast \<Rightarrow> string \<Rightarrow> pyobj \<Rightarrow> dictast" where
  "dict_set [] k v = [(k, v)]"
| "dict_set ((k', v') # d) k v = (if k' = k then (k, v) # d else (k', v') # dict_set d k v)"

text \<open>\<^verbatim>\<open>a | b\<close> on dicts: a copy of \<open>a\<close> updated with every item of \<open>b\<close> in turn.\<close>

definition dict_or :: "dictast \<Rightarrow> dictast \<Rightarrow> dictast" where
  "dict_or a b = foldl (\<lambda>d (k, v). dict_set d k v) a b"

definition dict_keys :: "dictast \<Rightarrow> string list" where
  "dict_keys d = map fst d"

definition dict_get :: "dictast \<Rightarrow> string \<Rightarrow> pyobj option" where
  "dict_get d k = map_of d k"

section \<open>Effects: the global set, standard output, exceptions\<close>

text \<open>
  The module-level \<^verbatim>\<open>missing = set()\<close> and the text written to standard output are
  the state. A Python set has no duplicates; it is kept as a duplicate-free list
  (\<open>missing_add\<close> tests membership first). The order in which a set is iterated over
  is not the order of this list: see \<open>report\<close>. A computation returns a value or raises,
  and the state it has reached is kept either way.
\<close>

datatype error = AttributeError | TypeError

record state =
  missing :: "string list"
  stdout :: "string list"

definition init_state :: state where
  "init_state = \<lparr>missing = [], stdout = []\<rparr>"

type_synonym 'a M = "state \<Rightarrow> (error + 'a) \<times> state"

definition returnM :: "'a \<Rightarrow> 'a M" where
  "returnM x = (\<lambda>st. (Inr x, st))"

definition raise :: "error \<Rightarrow> 'a M" where
  "raise e = (\<lambda>st. (Inl e, st))"

definition bindM :: "'a M \<Rightarrow> ('a \<Rightarrow> 'b M) \<Rightarrow> 'b M" where
  "bindM m f = (\<lambda>st. case m st of (Inl e, st') \<Rightarrow> (Inl e, st') | (Inr x, st') \<Rightarrow> f x st')"

fun mapM :: "('a \<Rightarrow> 'b M) \<Rightarrow> 'a list \<Rightarrow> 'b list M" where
  "mapM f [] = returnM []"
| "mapM f (x # xs) = bindM (f x) (\<lambda>y. bindM (mapM f xs) (\<lambda>ys. returnM (y # ys)))"

fun for_each :: "('a \<Rightarrow> unit M) \<Rightarrow> 'a list \<Rightarrow> unit M" where
  "for_each f [] = returnM ()"
| "for_each f (x # xs) = bindM (f x) (\<lambda>_. for_each f xs)"

text \<open>\<^verbatim>\<open>missing.add(name)\<close>\<close>

definition missing_add :: "string \<Rightarrow> unit M" where
  "missing_add name = (\<lambda>st. (Inr (), st\<lparr>missing := List.insert name (missing st)\<rparr>))"

text \<open>\<^verbatim>\<open>print(s)\<close> writes \<open>s\<close> and a newline to standard output;
  \<^verbatim>\<open>sys.stdout.write(s)\<close> writes \<open>s\<close>.\<close>

definition stdout_write :: "string \<Rightarrow> unit M" where
  "stdout_write s = (\<lambda>st. (Inr (), st\<lparr>stdout := stdout st @ [s]\<rparr>))"

definition print :: "string \<Rightarrow> unit M" where
  "print s = stdout_write (s @ [CHR 0x0A])"

section \<open>The walker's building blocks\<close>

text \<open>\<^verbatim>\<open>node.k\<close>: the attribute, or \<^verbatim>\<open>AttributeError\<close>.\<close>

definition attr :: "pyobj \<Rightarrow> string \<Rightarrow> pyobj M" where
  "attr node k = (case getattr node k of Some v \<Rightarrow> returnM v | None \<Rightarrow> raise AttributeError)"

text \<open>\<^verbatim>\<open>ast.iter_fields(node)\<close> reads \<^verbatim>\<open>node._fields\<close>, which only an AST node has.\<close>

fun iter_fields :: "pyobj \<Rightarrow> (string \<times> pyobj) list M" where
  "iter_fields (PyAST c fs as) = returnM fs"
| "iter_fields v = raise AttributeError"

text \<open>
  \<^verbatim>\<open>ast.NodeVisitor.generic_visit\<close>, which \<^verbatim>\<open>super().generic_visit(node)\<close> calls:
  \<^verbatim>\<open>
  for field, value in iter_fields(node):
      if isinstance(value, list):
          for item in value:
              if isinstance(item, AST):
                  self.visit(item)
      elif isinstance(value, AST):
          self.visit(value)
  \<close>
  The walker object \<^verbatim>\<open>self\<close> is its \<^verbatim>\<open>visit\<close> method here; what the calls return is
  dropped.
\<close>

definition visit_if_AST :: "(pyobj \<Rightarrow> dictast M) \<Rightarrow> pyobj \<Rightarrow> unit M" where
  "visit_if_AST self v = (if is_AST v then bindM (self v) (\<lambda>_. returnM ()) else returnM ())"

definition visit_field_value :: "(pyobj \<Rightarrow> dictast M) \<Rightarrow> pyobj \<Rightarrow> unit M" where
  "visit_field_value self v =
     (case v of
        PyList items \<Rightarrow> for_each (visit_if_AST self) items
      | _ \<Rightarrow> visit_if_AST self v)"

definition NodeVisitor_generic_visit :: "(pyobj \<Rightarrow> dictast M) \<Rightarrow> pyobj \<Rightarrow> unit M" where
  "NodeVisitor_generic_visit self node =
     bindM (iter_fields node) (for_each (\<lambda>(field, v). visit_field_value self v))"

text \<open>
  \<^verbatim>\<open>DictWalker.generic_visit(self, node, just_get_info=False)\<close>. \<open>S\<close> is the text that
  the f-string \<^verbatim>\<open>{node}\<close> produces for an object; the source defines no \<^verbatim>\<open>__str__\<close>, so
  this is the interpreter's own (for an AST node before Python 3.14 it is
  \<^verbatim>\<open><ast.Sub object at 0x...>\<close>, with the address of the object).
\<close>

definition generic_visit ::
  "(pyobj \<Rightarrow> string) \<Rightarrow> (pyobj \<Rightarrow> dictast M) \<Rightarrow> pyobj \<Rightarrow> bool \<Rightarrow> dictast M" where
  "generic_visit S self node just_get_info =
     bindM (if \<not> just_get_info then
              bindM (missing_add (class_name node)) (\<lambda>_.
              bindM (print (''Unimplemented Node: '' @ S node)) (\<lambda>_.
              bindM (NodeVisitor_generic_visit self node) (\<lambda>_.
              returnM [(''type'', PyStr (''Unimplemented: '' @ S node))])))
            else returnM []) (\<lambda>info.
     bindM (returnM (if hasattr node ''type_comment''
                     then (case getattr node ''type_comment'' of Some v \<Rightarrow> v | None \<Rightarrow> PyNone)
                     else PyNone)) (\<lambda>type_comment.
     bindM (attr node ''lineno'') (\<lambda>lineno.
     bindM (attr node ''col_offset'') (\<lambda>col_offset.
     bindM (attr node ''end_lineno'') (\<lambda>end_lineno.
     bindM (attr node ''end_col_offset'') (\<lambda>end_col_offset.
     returnM (dict_or [(''lineno'', lineno), (''col_offset'', col_offset),
                       (''end_lineno'', end_lineno), (''end_col_offset'', end_col_offset),
                       (''type_comment'', type_comment)] info)))))))"

text \<open>
  The expressions the converters are made of, each evaluated where Python evaluates it:
  \<^item> \<open>visit_value self v\<close> is \<^verbatim>\<open>self.visit(v)\<close> used as a value;
  \<^item> \<open>iterate v\<close> is the start of a loop over \<open>v\<close>: its items, or \<^verbatim>\<open>TypeError\<close> when \<open>v\<close>
    cannot be iterated over (the sequence fields of a parsed tree hold lists);
  \<^item> \<open>visit_each self v\<close> is \<^verbatim>\<open>[self.visit(x) for x in v]\<close> and \<^verbatim>\<open>list(map(self.visit, v))\<close>;
  \<^item> \<open>visit_opt self v\<close> is \<^verbatim>\<open>self.visit(v) if v is not None else None\<close>;
  \<^item> \<open>visit_each_opt self v\<close> is \<^verbatim>\<open>[self.visit(x) if x is not None else None for x in v]\<close>;
  \<^item> \<open>dict_display\<close> is a dict display \<^verbatim>\<open>{k1: e1, k2: e2, ...}\<close> with distinct literal keys:
    the values are evaluated from left to right;
  \<^item> \<open>dict_or_M a b\<close> is \<^verbatim>\<open>a | b\<close>: \<open>a\<close> is evaluated, then \<open>b\<close>, then the union.
\<close>

definition visit_value :: "(pyobj \<Rightarrow> dictast M) \<Rightarrow> pyobj \<Rightarrow> pyobj M" where
  "visit_value self v = bindM (self v) (\<lambda>d. returnM (PyDict d))"

definition iterate :: "pyobj \<Rightarrow> pyobj list M" where
  "iterate v = (if iterable v then returnM (elems v) else raise TypeError)"

definition visit_each :: "(pyobj \<Rightarrow> dictast M) \<Rightarrow> pyobj \<Rightarrow> pyobj M" where
  "visit_each self v =
     bindM (iterate v) (\<lambda>xs. bindM (mapM (visit_value self) xs) (\<lambda>rs. returnM (PyList rs)))"

definition visit_opt :: "(pyobj \<Rightarrow> dictast M) \<Rightarrow> pyobj \<Rightarrow> pyobj M" where
  "visit_opt self v = (if v \<noteq> PyNone then visit_value self v else returnM PyNone)"

definition visit_each_opt :: "(pyobj \<Rightarrow> dictast M) \<Rightarrow> pyobj \<Rightarrow> pyobj M" where
  "visit_each_opt self v =
     bindM (iterate v) (\<lambda>xs. bindM (mapM (visit_opt self) xs) (\<lambda>rs. returnM (PyList rs)))"

definition visit_attr :: "(pyobj \<Rightarrow> dictast M) \<Rightarrow> pyobj \<Rightarrow> string \<Rightarrow> pyobj M" where
  "visit_attr self node k = bindM (attr node k) (visit_value self)"

definition visit_attr_each :: "(pyobj \<Rightarrow> dictast M) \<Rightarrow> pyobj \<Rightarrow> string \<Rightarrow> pyobj M" where
  "visit_attr_each self node k = bindM (attr node k) (visit_each self)"

definition visit_attr_opt :: "(pyobj \<Rightarrow> dictast M) \<Rightarrow> pyobj \<Rightarrow> string \<Rightarrow> pyobj M" where
  "visit_attr_opt self node k = bindM (attr node k) (visit_opt self)"

definition visit_attr_each_opt :: "(pyobj \<Rightarrow> dictast M) \<Rightarrow> pyobj \<Rightarrow> string \<Rightarrow> pyobj M" where
  "visit_attr_each_opt self node k = bindM (attr node k) (visit_each_opt self)"

fun dict_display :: "(string \<times> pyobj M) list \<Rightarrow> dictast M" where
  "dict_display [] = returnM []"
| "dict_display ((k, m) # items) =
     bindM m (\<lambda>v. bindM (dict_display items) (\<lambda>d. returnM ((k, v) # d)))"

definition dict_or_M :: "dictast M \<Rightarrow> dictast M \<Rightarrow> dictast M" where
  "dict_or_M a b = bindM a (\<lambda>x. bindM b (\<lambda>y. returnM (dict_or x y)))"

definition str_lit :: "string \<Rightarrow> pyobj M" where
  "str_lit s = returnM (PyStr s)"

section \<open>The converters of \<^verbatim>\<open>DictWalker\<close>\<close>

text \<open>
  One definition for each \<^verbatim>\<open>visit_<Kind>\<close> method, in the order of the source. Every
  method gets the text function \<open>S\<close>, the walker's \<^verbatim>\<open>visit\<close> (as \<open>self\<close>; \<^verbatim>\<open>super().visit\<close>
  and \<^verbatim>\<open>self.visit\<close> are the same bound method, since \<^verbatim>\<open>DictWalker\<close> does not override
  \<^verbatim>\<open>visit\<close>) and the node. \<open>visit_Module\<close>, \<open>visit_Expr\<close> and \<open>visit_Call\<close> compute the
  children into local variables before they build the dict; the others evaluate them
  inside the dict display. \<open>visit_Compare\<close> reads \<^verbatim>\<open>node.ops\<close> and \<^verbatim>\<open>node.comparators\<close> and
  never \<^verbatim>\<open>node.left\<close>; \<open>visit_FunctionDef\<close> stores \<^verbatim>\<open>node.returns\<close> under the key
  \<^verbatim>\<open>"return"\<close>.
\<close>

type_synonym converter =
  "(pyobj \<Rightarrow> string) \<Rightarrow> (pyobj \<Rightarrow> dictast M) \<Rightarrow> pyobj \<Rightarrow> dictast M"

definition visit_Module :: converter where
  "visit_Module S self node =
     bindM (visit_attr_each self node ''body'') (\<lambda>body.
     returnM [(''type'', PyStr ''Module''), (''body'', body)])"

definition visit_Expr :: converter where
  "visit_Expr S self node =
     bindM (visit_attr self node ''value'') (\<lambda>value.
     dict_or_M (returnM [(''type'', PyStr ''Expr''), (''value'', value)])
       (generic_visit S self node True))"

definition visit_Call :: converter where
  "visit_Call S self node =
     bindM (visit_attr self node ''func'') (\<lambda>func.
     bindM (visit_attr_each self node ''args'') (\<lambda>args.
     bindM (visit_attr_each self node ''keywords'') (\<lambda>keywords.
     dict_or_M (returnM [(''type'', PyStr ''Call''), (''func'', func), (''args'', args), (''keywords'', keywords)])
       (generic_visit S self node True))))"

definition visit_Name :: converter where
  "visit_Name S self node =
     dict_or_M (dict_display
       [(''type'', str_lit ''Name''),
        (''id'', attr node ''id''),
        (''ctx'', visit_attr self node ''ctx'')])
       (generic_visit S self node True)"

definition visit_Load :: converter where
  "visit_Load S self node = dict_display [(''type'', str_lit ''Load'')]"

definition visit_Constant :: converter where
  "visit_Constant S self node =
     dict_or_M (dict_display
       [(''type'', str_lit ''Constant''),
        (''value'', attr node ''value''),
        (''kind'', attr node ''kind'')])
       (generic_visit S self node True)"

definition visit_keyword :: converter where
  "visit_keyword S self node =
     dict_display
       [(''type'', str_lit ''keyword''),
        (''arg'', attr node ''arg''),
        (''value'', visit_attr self node ''value'')]"

definition visit_Import :: converter where
  "visit_Import S self node =
     dict_or_M (dict_display
       [(''type'', str_lit ''Import''),
        (''names'', visit_attr_each self node ''names'')])
       (generic_visit S self node True)"

definition visit_alias :: converter where
  "visit_alias S self node =
     dict_or_M (dict_display
       [(''type'', str_lit ''alias''),
        (''name'', attr node ''name''),
        (''asname'', attr node ''asname'')])
       (generic_visit S self node True)"

definition visit_ImportFrom :: converter where
  "visit_ImportFrom S self node =
     dict_or_M (dict_display
       [(''type'', str_lit ''ImportFrom''),
        (''module'', attr node ''module''),
        (''names'', visit_attr_each self node ''names''),
        (''level'', attr node ''level'')])
       (generic_visit S self node True)"

definition visit_ClassDef :: converter where
  "visit_ClassDef S self node =
     dict_or_M (dict_display
       [(''type'', str_lit ''ClassDef''),
        (''name'', attr node ''name''),
        (''bases'', visit_attr_each self node ''bases''),
        (''keywords'', visit_attr_each self node ''keywords''),
        (''body'', visit_attr_each self node ''body''),
        (''decorator_list'', visit_attr_each self node ''decorator_list'')])
       (generic_visit S self node True)"

definition visit_Attribute :: converter where
  "visit_Attribute S self node =
     dict_or_M (dict_display
       [(''type'', str_lit ''Attribute''),
        (''value'', visit_attr self node ''value''),
        (''attr'', attr node ''attr''),
        (''ctx'', visit_attr self node ''ctx'')])
       (generic_visit S self node True)"

definition visit_Store :: converter where
  "visit_Store S self node = dict_display [(''type'', str_lit ''Store'')]"

definition visit_BitOr :: converter where
  "visit_BitOr S self node = dict_display [(''type'', str_lit ''BitOr'')]"

definition visit_arguments :: converter where
  "visit_arguments S self node =
     dict_display
       [(''type'', str_lit ''arguments''),
        (''posonlyargs'', visit_attr_each self node ''posonlyargs''),
        (''args'', visit_attr_each self node ''args''),
        (''vararg'', visit_attr_opt self node ''vararg''),
        (''kwonlyargs'', visit_attr_each self node ''kwonlyargs''),
        (''kw_defaults'', visit_attr_each_opt self node ''kw_defaults''),
        (''kwarg'', visit_attr_opt self node ''kwarg''),
        (''defaults'', visit_attr_each self node ''defaults'')]"

definition visit_Not :: converter where
  "visit_Not S self node = dict_display [(''type'', str_lit ''Not'')]"

definition visit_comprehension :: converter where
  "visit_comprehension S self node =
     dict_display
       [(''type'', str_lit ''comprehension''),
        (''target'', visit_attr self node ''target''),
        (''iter'', visit_attr self node ''iter''),
        (''ifs'', visit_attr_each self node ''ifs''),
        (''is_async'', attr node ''is_async'')]"

definition visit_IsNot :: converter where
  "visit_IsNot S self node = dict_display [(''type'', str_lit ''IsNot'')]"

definition visit_Eq :: converter where
  "visit_Eq S self node = dict_display [(''type'', str_lit ''Eq'')]"

definition visit_withitem :: converter where
  "visit_withitem S self node =
     dict_display
       [(''type'', str_lit ''withitem''),
        (''context_expr'', visit_attr self node ''context_expr''),
        (''optional_vars'', visit_attr_opt self node ''optional_vars'')]"

definition visit_Add :: converter where
  "visit_Add S self node = dict_display [(''type'', str_lit ''Add'')]"

definition visit_Subscript :: converter where
  "visit_Subscript S self node =
     dict_or_M (dict_display
       [(''type'', str_lit ''Subscript''),
        (''value'', visit_attr self node ''value''),
        (''slice'', visit_attr self node ''slice''),
        (''ctx'', visit_attr self node ''ctx'')])
       (generic_visit S self node True)"

definition visit_BinOp :: converter where
  "visit_BinOp S self node =
     dict_or_M (dict_display
       [(''type'', str_lit ''BinOp''),
        (''left'', visit_attr self node ''left''),
        (''op'', visit_attr self node ''op''),
        (''right'', visit_attr self node ''right'')])
       (generic_visit S self node True)"

definition visit_With :: converter where
  "visit_With S self node =
     dict_or_M (dict_display
       [(''type'', str_lit ''With''),
        (''items'', visit_attr_each self node ''items''),
        (''body'', visit_attr_each self node ''body'')])
       (generic_visit S self node True)"

definition visit_Assign :: converter where
  "visit_Assign S self node =
     dict_or_M (dict_display
       [(''type'', str_lit ''Assign''),
        (''targets'', visit_attr_each self node ''targets''),
        (''value'', visit_attr self node ''value'')])
       (generic_visit S self node True)"

definition visit_Dict :: converter where
  "visit_Dict S self node =
     dict_or_M (dict_display
       [(''type'', str_lit ''Dict''),
        (''keys'', visit_attr_each_opt self node ''keys''),
        (''values'', visit_attr_each self node ''values'')])
       (generic_visit S self node True)"

definition visit_arg :: converter where
  "visit_arg S self node =
     dict_or_M (dict_display
       [(''type'', str_lit ''arg''),
        (''arg'', attr node ''arg''),
        (''annotation'', visit_attr_opt self node ''annotation'')])
       (generic_visit S self node True)"

definition visit_Return :: converter where
  "visit_Return S self node =
     dict_or_M (dict_display
       [(''type'', str_lit ''Return''),
        (''value'', visit_attr_opt self node ''value'')])
       (generic_visit S self node True)"

definition visit_FunctionDef :: converter where
  "visit_FunctionDef S self node =
     dict_or_M (dict_display
       [(''type'', str_lit ''FunctionDef''),
        (''name'', attr node ''name''),
        (''args'', visit_attr self node ''args''),
        (''body'', visit_attr_each self node ''body''),
        (''decorator_list'', visit_attr_each self node ''decorator_list''),
        (''return'', visit_attr_opt self node ''returns'')])
       (generic_visit S self node True)"

definition visit_ListComp :: converter where
  "visit_ListComp S self node =
     dict_or_M (dict_display
       [(''type'', str_lit ''ListComp''),
        (''elt'', visit_attr self node ''elt''),
        (''generators'', visit_attr_each self node ''generators'')])
       (generic_visit S self node True)"

definition visit_UnaryOp :: converter where
  "visit_UnaryOp S self node =
     dict_or_M (dict_display
       [(''type'', str_lit ''UnaryOp''),
        (''op'', visit_attr self node ''op''),
        (''operand'', visit_attr self node ''operand'')])
       (generic_visit S self node True)"

definition visit_Compare :: converter where
  "visit_Compare S self node =
     dict_or_M (dict_display
       [(''type'', str_lit ''Compare''),
        (''ops'', visit_attr_each self node ''ops''),
        (''comparators'', visit_attr_each self node ''comparators'')])
       (generic_visit S self node True)"

definition visit_IfExp :: converter where
  "visit_IfExp S self node =
     dict_or_M (dict_display
       [(''type'', str_lit ''IfExp''),
        (''test'', visit_attr self node ''test''),
        (''body'', visit_attr self node ''body''),
        (''orelse'', visit_attr self node ''orelse'')])
       (generic_visit S self node True)"

definition visit_JoinedStr :: converter where
  "visit_JoinedStr S self node =
     dict_or_M (dict_display
       [(''type'', str_lit ''JoinedStr''),
        (''values'', visit_attr_each self node ''values'')])
       (generic_visit S self node True)"

definition visit_Tuple :: converter where
  "visit_Tuple S self node =
     dict_or_M (dict_display
       [(''type'', str_lit ''Tuple''),
        (''elts'', visit_attr_each self node ''elts''),
        (''ctx'', visit_attr self node ''ctx'')])
       (generic_visit S self node True)"

definition visit_FormattedValue :: converter where
  "visit_FormattedValue S self node =
     dict_or_M (dict_display
       [(''type'', str_lit ''FormattedValue''),
        (''value'', visit_attr self node ''value''),
        (''conversion'', attr node ''conversion''),
        (''format_spec'', visit_attr_opt self node ''format_spec'')])
       (generic_visit S self node True)"

definition visit_For :: converter where
  "visit_For S self node =
     dict_or_M (dict_display
       [(''type'', str_lit ''For''),
        (''target'', visit_attr self node ''target''),
        (''iter'', visit_attr self node ''iter''),
        (''body'', visit_attr_each self node ''body''),
        (''orelse'', visit_attr_each self node ''orelse'')])
       (generic_visit S self node True)"

definition visit_If :: converter where
  "visit_If S self node =
     dict_or_M (dict_display
       [(''type'', str_lit ''If''),
        (''test'', visit_attr self node ''test''),
        (''body'', visit_attr_each self node ''body''),
        (''orelse'', visit_attr_each self node ''orelse'')])
       (generic_visit S self node True)"


text \<open>
  The methods \<^verbatim>\<open>getattr(self, 'visit_' + name, ...)\<close> can find on a \<^verbatim>\<open>DictWalker\<close>.
  (\<^verbatim>\<open>ast.NodeVisitor\<close> itself defines \<^verbatim>\<open>visit\<close>, \<^verbatim>\<open>generic_visit\<close> and \<^verbatim>\<open>visit_Constant\<close>
  only, and \<^verbatim>\<open>DictWalker\<close> overrides the last.)
\<close>

definition DictWalker_methods :: "(string \<times> converter) list" where
  "DictWalker_methods =
     [(''visit_Module'', visit_Module), (''visit_Expr'', visit_Expr), (''visit_Call'', visit_Call),
      (''visit_Name'', visit_Name), (''visit_Load'', visit_Load), (''visit_Constant'', visit_Constant),
      (''visit_keyword'', visit_keyword), (''visit_Import'', visit_Import), (''visit_alias'', visit_alias),
      (''visit_ImportFrom'', visit_ImportFrom), (''visit_ClassDef'', visit_ClassDef), (''visit_Attribute'', visit_Attribute),
      (''visit_Store'', visit_Store), (''visit_BitOr'', visit_BitOr), (''visit_arguments'', visit_arguments),
      (''visit_Not'', visit_Not), (''visit_comprehension'', visit_comprehension), (''visit_IsNot'', visit_IsNot),
      (''visit_Eq'', visit_Eq), (''visit_withitem'', visit_withitem), (''visit_Add'', visit_Add),
      (''visit_Subscript'', visit_Subscript), (''visit_BinOp'', visit_BinOp), (''visit_With'', visit_With),
      (''visit_Assign'', visit_Assign), (''visit_Dict'', visit_Dict), (''visit_arg'', visit_arg),
      (''visit_Return'', visit_Return), (''visit_FunctionDef'', visit_FunctionDef), (''visit_ListComp'', visit_ListComp),
      (''visit_UnaryOp'', visit_UnaryOp), (''visit_Compare'', visit_Compare), (''visit_IfExp'', visit_IfExp),
      (''visit_JoinedStr'', visit_JoinedStr), (''visit_Tuple'', visit_Tuple), (''visit_FormattedValue'', visit_FormattedValue),
      (''visit_For'', visit_For), (''visit_If'', visit_If)]"


text \<open>
  \<^verbatim>\<open>ast.NodeVisitor.visit\<close>:
  \<^verbatim>\<open>
  method = 'visit_' + node.__class__.__name__
  visitor = getattr(self, method, self.generic_visit)
  return visitor(node)
  \<close>
\<close>

definition NodeVisitor_visit :: converter where
  "NodeVisitor_visit S self node =
     (case map_of DictWalker_methods (''visit_'' @ class_name node) of
        Some visitor \<Rightarrow> visitor S self node
      | None \<Rightarrow> generic_visit S self node False)"

section \<open>Tying the knot: \<^verbatim>\<open>DictWalker().visit\<close>\<close>

text \<open>
  Every method calls \<^verbatim>\<open>self.visit\<close> on objects directly below its node only, so the
  result of \<open>NodeVisitor_visit S self node\<close> depends on \<open>self\<close> on \<open>children node\<close>
  alone. That is the congruence rule with which the recursive \<open>visit\<close> is defined, and
  a child is smaller than its parent, so the recursion ends on every finite tree.
\<close>

lemma bindM_returnM [simp]: "bindM (returnM x) f = f x"
  by (simp add: bindM_def returnM_def)

lemma bindM_raise [simp]: "bindM (raise e) f = raise e"
  by (simp add: bindM_def raise_def)

lemma size_snd_mem: "(k, v) \<in> set fs \<Longrightarrow> size v < Suc (size_list (size_prod (\<lambda>_. 0) size) fs)"
  by (induction fs) auto

lemma children_size:
  assumes "m \<in> children node"
  shows "size m < size node"
proof (cases node)
  case (PyAST c fs as)
  have direct: "size v < size node" if "v \<in> set (attr_values node)" for v
  proof -
    from that PyAST have "v \<in> snd ` set fs \<or> v \<in> snd ` set as" by auto
    then obtain k where "(k, v) \<in> set fs \<or> (k, v) \<in> set as" by force
    then show ?thesis
      using size_snd_mem[of k v fs] size_snd_mem[of k v as] PyAST by auto
  qed
  have item: "size x \<le> size v" if "x \<in> set (elems v)" for x v
    using that by (cases v) (auto simp: le_Suc_eq size_list_estimation')
  show ?thesis
    using \<open>m \<in> children node\<close> direct item unfolding children_def
    by (auto intro: le_less_trans)
qed (use assms in \<open>auto simp: children_def\<close>)

text \<open>Two walkers that do the same on every object directly below \<open>node\<close>.\<close>

definition agree_on :: "pyobj \<Rightarrow> (pyobj \<Rightarrow> 'a M) \<Rightarrow> (pyobj \<Rightarrow> 'a M) \<Rightarrow> bool" where
  "agree_on node f g = (\<forall>m \<in> children node. f m = g m)"

lemma attr_children: "getattr node k = Some v \<Longrightarrow> v \<in> children node"
  by (cases node) (auto simp: children_def dest!: map_of_SomeD intro: rev_image_eqI)

lemma attr_elems_children: "getattr node k = Some v \<Longrightarrow> x \<in> set (elems v) \<Longrightarrow> x \<in> children node"
  by (cases node) (auto simp: children_def dest!: map_of_SomeD intro: rev_image_eqI rev_bexI)

lemma mapM_cong_set: "(\<And>x. x \<in> set xs \<Longrightarrow> f x = g x) \<Longrightarrow> mapM f xs = mapM g xs"
  by (induction xs) auto

lemma for_each_cong_set: "(\<And>x. x \<in> set xs \<Longrightarrow> f x = g x) \<Longrightarrow> for_each f xs = for_each g xs"
  by (induction xs) auto

lemma visit_attr_agree: "agree_on node f g \<Longrightarrow> visit_attr f node k = visit_attr g node k"
  by (auto simp: visit_attr_def attr_def visit_value_def agree_on_def bindM_def returnM_def raise_def
      dest: attr_children split: option.splits)

lemma visit_attr_opt_agree: "agree_on node f g \<Longrightarrow> visit_attr_opt f node k = visit_attr_opt g node k"
  by (auto simp: visit_attr_opt_def visit_opt_def attr_def visit_value_def agree_on_def bindM_def returnM_def raise_def
      dest: attr_children split: option.splits)

lemma visit_each_agree:
  assumes "\<And>x. x \<in> set (elems v) \<Longrightarrow> f x = g x"
  shows "visit_each f v = visit_each g v"
proof -
  have "mapM (visit_value f) (elems v) = mapM (visit_value g) (elems v)"
    using assms by (intro mapM_cong_set) (simp add: visit_value_def)
  then show ?thesis by (simp add: visit_each_def iterate_def)
qed

lemma visit_each_opt_agree:
  assumes "\<And>x. x \<in> set (elems v) \<Longrightarrow> f x = g x"
  shows "visit_each_opt f v = visit_each_opt g v"
proof -
  have "mapM (visit_opt f) (elems v) = mapM (visit_opt g) (elems v)"
    using assms by (intro mapM_cong_set) (simp add: visit_opt_def visit_value_def)
  then show ?thesis by (simp add: visit_each_opt_def iterate_def)
qed

lemma visit_attr_each_agree: "agree_on node f g \<Longrightarrow> visit_attr_each f node k = visit_attr_each g node k"
  using visit_each_agree[of _ f g] attr_elems_children[of node k]
  by (cases "getattr node k")
     (auto simp: visit_attr_each_def attr_def agree_on_def bindM_def returnM_def raise_def)

lemma visit_attr_each_opt_agree: "agree_on node f g \<Longrightarrow> visit_attr_each_opt f node k = visit_attr_each_opt g node k"
  using visit_each_opt_agree[of _ f g] attr_elems_children[of node k]
  by (cases "getattr node k")
     (auto simp: visit_attr_each_opt_def attr_def agree_on_def bindM_def returnM_def raise_def)

lemma visit_if_AST_agree: "f v = g v \<Longrightarrow> visit_if_AST f v = visit_if_AST g v"
  by (simp add: visit_if_AST_def)

lemma visit_field_value_agree:
  assumes "f v = g v" and "\<And>x. x \<in> set (elems v) \<Longrightarrow> f x = g x"
  shows "visit_field_value f v = visit_field_value g v"
proof (cases v)
  case (PyList xs)
  have "for_each (visit_if_AST f) xs = for_each (visit_if_AST g) xs"
    using assms(2) PyList by (intro for_each_cong_set visit_if_AST_agree) simp
  then show ?thesis by (simp add: visit_field_value_def PyList)
qed (use assms(1) in \<open>simp_all add: visit_field_value_def visit_if_AST_def\<close>)

lemma NodeVisitor_generic_visit_agree:
  assumes "agree_on node f g"
  shows "NodeVisitor_generic_visit f node = NodeVisitor_generic_visit g node"
proof (cases node)
  case (PyAST c fs as)
  have "for_each (\<lambda>(field, v). visit_field_value f v) fs
      = for_each (\<lambda>(field, v). visit_field_value g v) fs"
  proof (rule for_each_cong_set)
    fix p assume p: "p \<in> set fs"
    obtain k v where kv: "p = (k, v)" by (cases p)
    have "v \<in> children node" using p kv PyAST by (force simp: children_def)
    moreover have "x \<in> children node" if "x \<in> set (elems v)" for x
      using that p kv PyAST by (force simp: children_def)
    ultimately have "visit_field_value f v = visit_field_value g v"
      using assms by (intro visit_field_value_agree) (simp_all add: agree_on_def)
    then show "(case p of (field, v) \<Rightarrow> visit_field_value f v)
             = (case p of (field, v) \<Rightarrow> visit_field_value g v)"
      by (simp add: kv)
  qed
  then show ?thesis by (simp add: NodeVisitor_generic_visit_def PyAST)
qed (simp_all add: NodeVisitor_generic_visit_def)

lemma generic_visit_agree:
  "agree_on node f g \<Longrightarrow> generic_visit S f node b = generic_visit S g node b"
  by (simp add: generic_visit_def NodeVisitor_generic_visit_agree)

lemmas visit_defs =
  visit_Module_def visit_Expr_def visit_Call_def visit_Name_def visit_Load_def
  visit_Constant_def visit_keyword_def visit_Import_def visit_alias_def
  visit_ImportFrom_def visit_ClassDef_def visit_Attribute_def visit_Store_def
  visit_BitOr_def visit_arguments_def visit_Not_def visit_comprehension_def
  visit_IsNot_def visit_Eq_def visit_withitem_def visit_Add_def visit_Subscript_def
  visit_BinOp_def visit_With_def visit_Assign_def visit_Dict_def visit_arg_def
  visit_Return_def visit_FunctionDef_def visit_ListComp_def visit_UnaryOp_def
  visit_Compare_def visit_IfExp_def visit_JoinedStr_def visit_Tuple_def
  visit_FormattedValue_def visit_For_def visit_If_def

lemma converter_agree:
  assumes "agree_on node f g" and "(name, visitor) \<in> set DictWalker_methods"
  shows "visitor S f node = visitor S g node"
  using assms(2) unfolding DictWalker_methods_def
  by (auto simp: visit_defs visit_attr_agree[OF assms(1)] visit_attr_opt_agree[OF assms(1)]
      visit_attr_each_agree[OF assms(1)] visit_attr_each_opt_agree[OF assms(1)]
      generic_visit_agree[OF assms(1)])

lemma NodeVisitor_visit_agree:
  assumes "agree_on node f g"
  shows "NodeVisitor_visit S f node = NodeVisitor_visit S g node"
  unfolding NodeVisitor_visit_def
  by (auto split: option.split dest!: map_of_SomeD
      simp: generic_visit_agree[OF assms] converter_agree[OF assms])

lemma NodeVisitor_visit_cong [fundef_cong]:
  assumes "node = node'" and "st = st'"
    and "\<And>m t. m \<in> children node' \<Longrightarrow> f m t = g m t"
  shows "NodeVisitor_visit S f node st = NodeVisitor_visit S g node' st'"
proof -
  have "agree_on node' f g" using assms(3) by (auto simp: agree_on_def)
  then show ?thesis using assms(1,2) by (simp add: NodeVisitor_visit_agree)
qed

function visit :: "(pyobj \<Rightarrow> string) \<Rightarrow> pyobj \<Rightarrow> dictast M" where
  "visit S node st = NodeVisitor_visit S (visit S) node st"
  by pat_completeness auto
termination
  by (relation "measure (\<lambda>(S, node, st). size node)") (auto simp: children_size)

section \<open>The program\<close>

text \<open>
  \<^verbatim>\<open>
  dict_code = DictWalker().visit(ast.parse(source))
  json.dump(dict_code, sys.stdout)
  for missing in missing:
      print(missing)
  \<close>
  The parser and the JSON encoder are Python's: the program's input here is the tree
  \<^verbatim>\<open>ast.parse\<close> returned, and \<open>dumps\<close> is the text \<^verbatim>\<open>json.dump\<close> writes for an object, or
  the exception it raises.

  The last loop iterates over a set of strings. Python lays a set out by the hashes of
  its elements, and the hash of a string changes with the hash seed of the process, so
  the order of the loop is another input of a run: \<open>rank\<close> gives every string its place
  in that order, and the loop goes through the set by rising rank. Every order of the
  elements is the order of some \<open>rank\<close>.
\<close>

definition json_dump :: "(pyobj \<Rightarrow> error + string) \<Rightarrow> pyobj \<Rightarrow> unit M" where
  "json_dump dumps obj = (case dumps obj of Inl e \<Rightarrow> raise e | Inr text \<Rightarrow> stdout_write text)"

definition report :: "(string \<Rightarrow> nat) \<Rightarrow> unit M" where
  "report rank = (\<lambda>st. for_each print (sort_key rank (missing st)) st)"

definition main ::
  "(pyobj \<Rightarrow> string) \<Rightarrow> (string \<Rightarrow> nat) \<Rightarrow> (pyobj \<Rightarrow> error + string) \<Rightarrow> pyobj \<Rightarrow> unit M" where
  "main S rank dumps tree =
     bindM (visit S tree) (\<lambda>dict_code.
     bindM (json_dump dumps (PyDict dict_code)) (\<lambda>_.
     report rank))"

section \<open>What a returned record looks like\<close>

text \<open>The keys of the position information, and the kinds whose converter does not merge it in.\<close>

definition info_keys :: "string list" where
  "info_keys = [''lineno'', ''col_offset'', ''end_lineno'', ''end_col_offset'', ''type_comment'']"

definition bare_kinds :: "string list" where
  "bare_kinds = [''Module'', ''Load'', ''Store'', ''BitOr'', ''Not'', ''IsNot'', ''Eq'', ''Add'',
     ''keyword'', ''arguments'', ''comprehension'', ''withitem'']"

lemma returnM_eq [simp]: "returnM x st = (r, st') \<longleftrightarrow> r = Inr x \<and> st' = st"
  by (auto simp: returnM_def)

lemma raise_eq [simp]: "raise e st = (r, st') \<longleftrightarrow> r = Inl e \<and> st' = st"
  by (auto simp: raise_def)

lemma bindM_Inr:
  "bindM m f st = (Inr r, st') \<longleftrightarrow> (\<exists>v t. m st = (Inr v, t) \<and> f v t = (Inr r, st'))"
  by (auto simp: bindM_def split: prod.splits sum.splits)

lemma str_lit_eq [simp]: "str_lit s st = (r, st') \<longleftrightarrow> r = Inr (PyStr s) \<and> st' = st"
  by (simp add: str_lit_def)

lemma dict_display_keys:
  "dict_display items st = (Inr d, st') \<Longrightarrow> dict_keys d = map fst items"
proof (induction items arbitrary: st d)
  case Nil
  then show ?case by (simp add: dict_keys_def)
next
  case (Cons item items)
  obtain k m where "item = (k, m)" by (cases item)
  with Cons show ?case by (fastforce simp: bindM_Inr dict_keys_def)
qed

lemma dict_display_type:
  "dict_display ((''type'', str_lit s) # items) st = (Inr d, st') \<Longrightarrow>
     \<exists>own. d = (''type'', PyStr s) # own \<and> dict_keys own = map fst items"
  using dict_display_keys[of items] by (fastforce simp: bindM_Inr)

lemma dict_or_M_Inr:
  "dict_or_M a b st = (Inr d, st') \<longleftrightarrow>
     (\<exists>x y t. a st = (Inr x, t) \<and> b t = (Inr y, st') \<and> d = dict_or x y)"
  by (auto simp: dict_or_M_def bindM_Inr)

lemma dict_set_fresh: "k \<notin> fst ` set d \<Longrightarrow> dict_set d k v = d @ [(k, v)]"
  by (induction d) auto

lemma dict_or_disjoint:
  "distinct (map fst b) \<Longrightarrow> fst ` set a \<inter> fst ` set b = {} \<Longrightarrow> dict_or a b = a @ b"
proof (induction b arbitrary: a)
  case Nil
  then show ?case by (simp add: dict_or_def)
next
  case (Cons p b)
  obtain k v where p: "p = (k, v)" by (cases p)
  have "dict_or a (p # b) = dict_or (dict_set a k v) b"
    by (simp add: dict_or_def p)
  also have "dict_set a k v = a @ [(k, v)]"
    using Cons.prems p by (intro dict_set_fresh) auto
  also have "dict_or (a @ [(k, v)]) b = (a @ [(k, v)]) @ b"
    using Cons.prems p by (intro Cons.IH) auto
  finally show ?case by (simp add: p)
qed

lemma attr_Inr: "attr node k st = (Inr v, st') \<longleftrightarrow> getattr node k = Some v \<and> st' = st"
  by (auto simp: attr_def split: option.splits)

lemma generic_visit_info:
  assumes "generic_visit S self node True st = (Inr info, st')"
  shows "st' = st" and "dict_keys info = info_keys"
    and "\<forall>k \<in> {''lineno'', ''col_offset'', ''end_lineno'', ''end_col_offset''}. dict_get info k = getattr node k"
    and "dict_get info ''type_comment'' = Some (case getattr node ''type_comment'' of Some v \<Rightarrow> v | None \<Rightarrow> PyNone)"
  using assms
  by (auto simp: generic_visit_def bindM_Inr attr_Inr dict_or_def dict_keys_def info_keys_def dict_get_def hasattr_def)

lemma info_disjoint:
  "dict_keys info = info_keys \<Longrightarrow> dict_keys own = ks \<Longrightarrow> ''type'' \<notin> set info_keys \<Longrightarrow>
   set ks \<inter> set info_keys = {} \<Longrightarrow>
   dict_or ((''type'', PyStr s) # own) info = (''type'', PyStr s) # own @ info"
  using dict_or_disjoint[of info "(''type'', PyStr s) # own"]
  by (auto simp: dict_keys_def info_keys_def) 

definition shaped :: "(pyobj \<Rightarrow> string) \<Rightarrow> (pyobj \<Rightarrow> dictast M) \<Rightarrow> pyobj \<Rightarrow> state \<Rightarrow> string \<Rightarrow> dictast \<Rightarrow> bool" where
  "shaped S self node st' kind d =
     (\<exists>own info. d = (''type'', PyStr kind) # own @ info \<and> ''type'' \<notin> set (dict_keys own) \<and>
        set (dict_keys own) \<inter> set info_keys = {} \<and>
        (if kind \<in> set bare_kinds then info = []
         else generic_visit S self node True st' = (Inr info, st') \<and> dict_keys info = info_keys \<and>
              d = dict_or ((''type'', PyStr kind) # own) info))"

lemma shaped_bare:
  assumes "dict_display ((''type'', str_lit kind) # items) st = (Inr d, st')"
    and "kind \<in> set bare_kinds" and "''type'' \<notin> fst ` set items" and "fst ` set items \<inter> set info_keys = {}"
  shows "shaped S self node st' kind d"
proof -
  from dict_display_type[OF assms(1)] obtain own
    where "d = (''type'', PyStr kind) # own" "dict_keys own = map fst items" by blast
  then show ?thesis using assms(2-4) unfolding shaped_def
    by (intro exI[of _ own] exI[of _ "[]"]) auto
qed

lemma shaped_merged:
  assumes "dict_or_M (dict_display ((''type'', str_lit kind) # items)) (generic_visit S self node True) st = (Inr d, st')"
    and "kind \<notin> set bare_kinds" and "''type'' \<notin> fst ` set items" and "fst ` set items \<inter> set info_keys = {}"
  shows "shaped S self node st' kind d"
proof -
  from assms(1) obtain x info t where x: "dict_display ((''type'', str_lit kind) # items) st = (Inr x, t)"
    and info: "generic_visit S self node True t = (Inr info, st')" and d: "d = dict_or x info"
    by (auto simp: dict_or_M_Inr)
  from dict_display_type[OF x] obtain own
    where own: "x = (''type'', PyStr kind) # own" "dict_keys own = map fst items" by blast
  have t: "st' = t" and ik: "dict_keys info = info_keys" using generic_visit_info[OF info] by auto
  have "dict_or ((''type'', PyStr kind) # own) info = (''type'', PyStr kind) # own @ info"
    using ik own(2) assms(4) by (intro info_disjoint) (auto simp: info_keys_def)
  then show ?thesis using assms(2-4) own d info ik t unfolding shaped_def
    by (intro exI[of _ own] exI[of _ info]) auto
qed


lemma visit_Module_display:
  "visit_Module S self node =
     dict_display [(''type'', str_lit ''Module''), (''body'', visit_attr_each self node ''body'')]"
  by (simp add: visit_Module_def str_lit_def bindM_def returnM_def fun_eq_iff split: prod.splits sum.splits)

lemma visit_Expr_display:
  "visit_Expr S self node =
     dict_or_M (dict_display [(''type'', str_lit ''Expr''), (''value'', visit_attr self node ''value'')])
       (generic_visit S self node True)"
  by (simp add: visit_Expr_def dict_or_M_def str_lit_def bindM_def returnM_def fun_eq_iff split: prod.splits sum.splits)

lemma visit_Call_display:
  "visit_Call S self node =
     dict_or_M (dict_display [(''type'', str_lit ''Call''), (''func'', visit_attr self node ''func''),
        (''args'', visit_attr_each self node ''args''), (''keywords'', visit_attr_each self node ''keywords'')])
       (generic_visit S self node True)"
  by (simp add: visit_Call_def dict_or_M_def str_lit_def bindM_def returnM_def fun_eq_iff split: prod.splits sum.splits)

lemmas visit_display =
  visit_Module_display visit_Expr_display visit_Call_display
  visit_Name_def visit_Load_def visit_Constant_def visit_keyword_def
  visit_Import_def visit_alias_def visit_ImportFrom_def visit_ClassDef_def
  visit_Attribute_def visit_Store_def visit_BitOr_def visit_arguments_def
  visit_Not_def visit_comprehension_def visit_IsNot_def visit_Eq_def
  visit_withitem_def visit_Add_def visit_Subscript_def visit_BinOp_def
  visit_With_def visit_Assign_def visit_Dict_def visit_arg_def
  visit_Return_def visit_FunctionDef_def visit_ListComp_def visit_UnaryOp_def
  visit_Compare_def visit_IfExp_def visit_JoinedStr_def visit_Tuple_def
  visit_FormattedValue_def visit_For_def visit_If_def

lemma converter_shapes:
  shows "visit_Module S self node st = (Inr d, st') \<Longrightarrow> shaped S self node st' ''Module'' d"
    and "visit_Expr S self node st = (Inr d, st') \<Longrightarrow> shaped S self node st' ''Expr'' d"
    and "visit_Call S self node st = (Inr d, st') \<Longrightarrow> shaped S self node st' ''Call'' d"
    and "visit_Name S self node st = (Inr d, st') \<Longrightarrow> shaped S self node st' ''Name'' d"
    and "visit_Load S self node st = (Inr d, st') \<Longrightarrow> shaped S self node st' ''Load'' d"
    and "visit_Constant S self node st = (Inr d, st') \<Longrightarrow> shaped S self node st' ''Constant'' d"
    and "visit_keyword S self node st = (Inr d, st') \<Longrightarrow> shaped S self node st' ''keyword'' d"
    and "visit_Import S self node st = (Inr d, st') \<Longrightarrow> shaped S self node st' ''Import'' d"
    and "visit_alias S self node st = (Inr d, st') \<Longrightarrow> shaped S self node st' ''alias'' d"
    and "visit_ImportFrom S self node st = (Inr d, st') \<Longrightarrow> shaped S self node st' ''ImportFrom'' d"
    and "visit_ClassDef S self node st = (Inr d, st') \<Longrightarrow> shaped S self node st' ''ClassDef'' d"
    and "visit_Attribute S self node st = (Inr d, st') \<Longrightarrow> shaped S self node st' ''Attribute'' d"
    and "visit_Store S self node st = (Inr d, st') \<Longrightarrow> shaped S self node st' ''Store'' d"
    and "visit_BitOr S self node st = (Inr d, st') \<Longrightarrow> shaped S self node st' ''BitOr'' d"
    and "visit_arguments S self node st = (Inr d, st') \<Longrightarrow> shaped S self node st' ''arguments'' d"
    and "visit_Not S self node st = (Inr d, st') \<Longrightarrow> shaped S self node st' ''Not'' d"
    and "visit_comprehension S self node st = (Inr d, st') \<Longrightarrow> shaped S self node st' ''comprehension'' d"
    and "visit_IsNot S self node st = (Inr d, st') \<Longrightarrow> shaped S self node st' ''IsNot'' d"
    and "visit_Eq S self node st = (Inr d, st') \<Longrightarrow> shaped S self node st' ''Eq'' d"
    and "visit_withitem S self node st = (Inr d, st') \<Longrightarrow> shaped S self node st' ''withitem'' d"
    and "visit_Add S self node st = (Inr d, st') \<Longrightarrow> shaped S self node st' ''Add'' d"
    and "visit_Subscript S self node st = (Inr d, st') \<Longrightarrow> shaped S self node st' ''Subscript'' d"
    and "visit_BinOp S self node st = (Inr d, st') \<Longrightarrow> shaped S self node st' ''BinOp'' d"
    and "visit_With S self node st = (Inr d, st') \<Longrightarrow> shaped S self node st' ''With'' d"
    and "visit_Assign S self node st = (Inr d, st') \<Longrightarrow> shaped S self node st' ''Assign'' d"
    and "visit_Dict S self node st = (Inr d, st') \<Longrightarrow> shaped S self node st' ''Dict'' d"
    and "visit_arg S self node st = (Inr d, st') \<Longrightarrow> shaped S self node st' ''arg'' d"
    and "visit_Return S self node st = (Inr d, st') \<Longrightarrow> shaped S self node st' ''Return'' d"
    and "visit_FunctionDef S self node st = (Inr d, st') \<Longrightarrow> shaped S self node st' ''FunctionDef'' d"
    and "visit_ListComp S self node st = (Inr d, st') \<Longrightarrow> shaped S self node st' ''ListComp'' d"
    and "visit_UnaryOp S self node st = (Inr d, st') \<Longrightarrow> shaped S self node st' ''UnaryOp'' d"
    and "visit_Compare S self node st = (Inr d, st') \<Longrightarrow> shaped S self node st' ''Compare'' d"
    and "visit_IfExp S self node st = (Inr d, st') \<Longrightarrow> shaped S self node st' ''IfExp'' d"
    and "visit_JoinedStr S self node st = (Inr d, st') \<Longrightarrow> shaped S self node st' ''JoinedStr'' d"
    and "visit_Tuple S self node st = (Inr d, st') \<Longrightarrow> shaped S self node st' ''Tuple'' d"
    and "visit_FormattedValue S self node st = (Inr d, st') \<Longrightarrow> shaped S self node st' ''FormattedValue'' d"
    and "visit_For S self node st = (Inr d, st') \<Longrightarrow> shaped S self node st' ''For'' d"
    and "visit_If S self node st = (Inr d, st') \<Longrightarrow> shaped S self node st' ''If'' d"
  unfolding visit_display
  by (erule shaped_merged shaped_bare; simp add: bare_kinds_def info_keys_def)+

lemma converter_shape:
  assumes "(name, visitor) \<in> set DictWalker_methods"
    and "visitor S self node st = (Inr d, st')"
  shows "\<exists>kind. name = ''visit_'' @ kind \<and> shaped S self node st' kind d"
  using assms unfolding DictWalker_methods_def
  by (auto dest: converter_shapes)

section \<open>Where the text of a node enters the result\<close>

text \<open>The kind of \<open>node\<close> has a \<^verbatim>\<open>visit_<Kind>\<close> method.\<close>

definition has_converter :: "pyobj \<Rightarrow> bool" where
  "has_converter node = (map_of DictWalker_methods (''visit_'' @ class_name node) \<noteq> None)"

text \<open>Everything in a tree that \<^verbatim>\<open>visit\<close> could be called on: the object, the objects
  directly below it, and so on.\<close>

definition child_list :: "pyobj \<Rightarrow> pyobj list" where
  "child_list node = attr_values node @ concat (map elems (attr_values node))"

lemma set_child_list: "set (child_list node) = children node"
  by (auto simp: child_list_def children_def)

function descendants :: "pyobj \<Rightarrow> pyobj list" where
  "descendants node = node # concat (map descendants (child_list node))"
  by pat_completeness auto
termination
  by (relation "measure size") (auto simp: set_child_list children_size)

declare descendants.simps [simp del]



text \<open>In info-only mode \<open>generic_visit\<close> uses neither the text function nor the walker.\<close>

definition position_info :: "pyobj \<Rightarrow> dictast M" where
  "position_info node = generic_visit (\<lambda>_. []) (\<lambda>_. raise AttributeError) node True"

lemma generic_visit_True: "generic_visit S self node True = position_info node"
  by (simp add: generic_visit_def position_info_def)



lemma visit_unfold: "visit S node = NodeVisitor_visit S (visit S) node"
  by (rule ext) simp

declare visit.simps [simp del]


section \<open>Dispatch\<close>

text \<open>The kinds with a \<^verbatim>\<open>visit_<Kind>\<close> method, as the source lists them.\<close>

definition converted_kinds :: "string list" where
  "converted_kinds =
     [''Module'', ''Expr'', ''Call'', ''Name'', ''Load'', ''Constant'', ''keyword'', ''Import'',
      ''alias'', ''ImportFrom'', ''ClassDef'', ''Attribute'', ''Store'', ''BitOr'', ''arguments'',
      ''Not'', ''comprehension'', ''IsNot'', ''Eq'', ''withitem'', ''Add'', ''Subscript'',
      ''BinOp'', ''With'', ''Assign'', ''Dict'', ''arg'', ''Return'', ''FunctionDef'', ''ListComp'',
      ''UnaryOp'', ''Compare'', ''IfExp'', ''JoinedStr'', ''Tuple'', ''FormattedValue'', ''For'',
      ''If'']"

lemma has_converter_iff: "has_converter node \<longleftrightarrow> class_name node \<in> set converted_kinds"
  by (auto simp: has_converter_def DictWalker_methods_def converted_kinds_def)

lemma bare_kinds_converted: "class_name node \<in> set bare_kinds \<Longrightarrow> has_converter node"
  by (auto simp: has_converter_iff converted_kinds_def bare_kinds_def)

lemma visit_converter:
  assumes "map_of DictWalker_methods (''visit_'' @ class_name node) = Some visitor"
  shows "visit S node = visitor S (visit S) node"
  by (subst visit_unfold) (simp only: NodeVisitor_visit_def assms option.case)

lemma visit_fallback:
  assumes "\<not> has_converter node"
  shows "visit S node = generic_visit S (visit S) node False"
proof -
  have "map_of DictWalker_methods (''visit_'' @ class_name node) = None"
    using assms by (simp only: has_converter_def not_not)
  then show ?thesis
    by (subst visit_unfold) (simp only: NodeVisitor_visit_def option.case)
qed

lemma visit_shaped:
  assumes "has_converter node" and "visit S node st = (Inr d, st')"
  shows "shaped S (visit S) node st' (class_name node) d"
proof -
  obtain visitor where v: "map_of DictWalker_methods (''visit_'' @ class_name node) = Some visitor"
    using assms(1) by (auto simp only: has_converter_def)
  have "visitor S (visit S) node st = (Inr d, st')"
    using assms(2) visit_converter[OF v] by simp
  from converter_shape[OF map_of_SomeD[OF v] this]
  obtain kind where "''visit_'' @ class_name node = ''visit_'' @ kind"
    and "shaped S (visit S) node st' kind d" by blast
  then show ?thesis by simp
qed

lemma fallback_record:
  assumes "generic_visit S self node False st = (Inr d, st')"
  shows "\<exists>a b c e t. d = [(''lineno'', a), (''col_offset'', b), (''end_lineno'', c),
           (''end_col_offset'', e), (''type_comment'', t),
           (''type'', PyStr (''Unimplemented: '' @ S node))]
         \<and> getattr node ''lineno'' = Some a \<and> getattr node ''col_offset'' = Some b
         \<and> getattr node ''end_lineno'' = Some c \<and> getattr node ''end_col_offset'' = Some e
         \<and> t = (case getattr node ''type_comment'' of Some v \<Rightarrow> v | None \<Rightarrow> PyNone)"
  using assms
  by (auto simp: generic_visit_def bindM_Inr attr_Inr dict_or_def hasattr_def)

lemma converted_not_placeholder:
  "kind \<in> set converted_kinds \<Longrightarrow> kind \<noteq> ''Unimplemented: '' @ text"
  by (auto simp: converted_kinds_def)

lemma shapedE:
  assumes "shaped S self node st' kind d"
  obtains own info where "d = (''type'', PyStr kind) # own @ info"
    and "''type'' \<notin> set (dict_keys own)"
    and "set (dict_keys own) \<inter> set info_keys = {}"
    and "kind \<in> set bare_kinds \<Longrightarrow> info = []"
    and "kind \<notin> set bare_kinds \<Longrightarrow> generic_visit S self node True st' = (Inr info, st')"
    and "kind \<notin> set bare_kinds \<Longrightarrow> dict_keys info = info_keys"
    and "kind \<notin> set bare_kinds \<Longrightarrow> d = dict_or ((''type'', PyStr kind) # own) info"
proof -
  from assms obtain own info where
    d: "d = (''type'', PyStr kind) # own @ info" and ty: "''type'' \<notin> set (dict_keys own)" and
    own: "set (dict_keys own) \<inter> set info_keys = {}" and
    rest: "if kind \<in> set bare_kinds then info = []
         else generic_visit S self node True st' = (Inr info, st') \<and> dict_keys info = info_keys \<and>
              d = dict_or ((''type'', PyStr kind) # own) info"
    unfolding shaped_def by blast
  show thesis
  proof (rule that[of own info])
    show "d = (''type'', PyStr kind) # own @ info" by (rule d)
    show "''type'' \<notin> set (dict_keys own)" by (rule ty)
    show "set (dict_keys own) \<inter> set info_keys = {}" by (rule own)
    show "info = []" if "kind \<in> set bare_kinds" using rest that by simp
    show "generic_visit S self node True st' = (Inr info, st')" if "kind \<notin> set bare_kinds"
      using rest that by simp
    show "dict_keys info = info_keys" if "kind \<notin> set bare_kinds" using rest that by simp
    show "d = dict_or ((''type'', PyStr kind) # own) info" if "kind \<notin> set bare_kinds"
      using rest that by simp
  qed
qed

lemma shaped_type: "shaped S self node st' kind d \<Longrightarrow> dict_get d ''type'' = Some (PyStr kind)"
  by (auto simp: shaped_def dict_get_def)

section \<open>Children converted in order\<close>

text \<open>\<open>converted S x r\<close>: the value \<open>r\<close> is the record that \<open>visit\<close> returns for \<open>x\<close> (from some
  state of the missing-kind set and the output).\<close>

definition converted :: "(pyobj \<Rightarrow> string) \<Rightarrow> pyobj \<Rightarrow> pyobj \<Rightarrow> bool" where
  "converted S x r = (\<exists>s s' d. visit S x s = (Inr d, s') \<and> r = PyDict d)"

lemma mapM_all2:
  "mapM f xs st = (Inr rs, st') \<Longrightarrow> list_all2 (\<lambda>x r. \<exists>s s'. f x s = (Inr r, s')) xs rs"
proof (induction xs arbitrary: st rs)
  case Nil
  then show ?case by simp
next
  case (Cons x xs)
  from Cons.prems obtain y t ys where y: "f x st = (Inr y, t)"
    and ys: "mapM f xs t = (Inr ys, st')" and rs: "rs = y # ys"
    by (auto simp: bindM_Inr)
  from Cons.IH[OF ys] y rs show ?case by auto
qed

lemma mapM_total:
  "(\<And>x s. x \<in> set xs \<Longrightarrow> \<exists>r s'. f x s = (Inr r, s')) \<Longrightarrow> \<exists>rs s'. mapM f xs st = (Inr rs, s')"
proof (induction xs arbitrary: st)
  case Nil
  then show ?case by simp
next
  case (Cons x xs)
  from Cons.prems[of x st] obtain y t where y: "f x st = (Inr y, t)" by auto
  from Cons.IH[of t] Cons.prems obtain ys s' where "mapM f xs t = (Inr ys, s')" by auto
  with y show ?case by (auto simp: bindM_Inr)
qed

lemma visit_value_Inr:
  "visit_value self v st = (Inr r, st') \<longleftrightarrow> (\<exists>d. self v st = (Inr d, st') \<and> r = PyDict d)"
  by (auto simp: visit_value_def bindM_Inr)

lemma visit_attr_each_Inr:
  assumes "visit_attr_each (visit S) node k st = (Inr r, st')"
  shows "\<exists>v rs. getattr node k = Some v \<and> iterable v \<and> r = PyList rs
           \<and> list_all2 (converted S) (elems v) rs"
proof -
  from assms obtain v where v: "getattr node k = Some v"
    and e: "visit_each (visit S) v st = (Inr r, st')"
    by (auto simp: visit_attr_each_def bindM_Inr attr_Inr)
  from e obtain rs where it: "iterable v" and rs: "r = PyList rs"
    and m: "mapM (visit_value (visit S)) (elems v) st = (Inr rs, st')"
    by (auto simp: visit_each_def iterate_def bindM_Inr split: if_splits)
  have "list_all2 (converted S) (elems v) rs"
    using mapM_all2[OF m] by (rule list_all2_mono) (unfold converted_def visit_value_Inr, blast)
  then show ?thesis using v it rs by simp
qed

lemma visit_attr_each_total:
  assumes "getattr node k = Some v" and "iterable v"
    and "\<And>x s. x \<in> set (elems v) \<Longrightarrow> \<exists>d s'. visit S x s = (Inr d, s')"
  shows "\<exists>r s'. visit_attr_each (visit S) node k st = (Inr r, s')"
proof -
  have "\<exists>rs s'. mapM (visit_value (visit S)) (elems v) st = (Inr rs, s')"
  proof (rule mapM_total)
    fix x s assume "x \<in> set (elems v)"
    from assms(3)[OF this, of s] show "\<exists>r s'. visit_value (visit S) x s = (Inr r, s')"
      by (auto simp: visit_value_Inr)
  qed
  then show ?thesis
    using assms(1,2)
    by (auto simp: visit_attr_each_def visit_each_def iterate_def bindM_Inr attr_Inr)
qed

lemma visit_attr_opt_Inr:
  assumes "visit_attr_opt (visit S) node k st = (Inr r, st')"
  shows "\<exists>a. getattr node k = Some a \<and> (if a = PyNone then r = PyNone else converted S a r)"
  using assms
  by (auto simp: visit_attr_opt_def visit_opt_def bindM_Inr attr_Inr visit_value_Inr converted_def
      split: if_splits)

lemma generic_visit_info_total:
  assumes "hasattr node ''lineno''" "hasattr node ''col_offset''"
    "hasattr node ''end_lineno''" "hasattr node ''end_col_offset''"
  shows "\<exists>info. generic_visit S self node True st = (Inr info, st)"
  using assms by (auto simp: generic_visit_def bindM_Inr attr_Inr hasattr_def)

lemma visit_Compare_eq:
  "class_name node = ''Compare'' \<Longrightarrow> visit S node = visit_Compare S (visit S) node"
  by (rule visit_converter) (simp add: DictWalker_methods_def)

lemma visit_FunctionDef_eq:
  "class_name node = ''FunctionDef'' \<Longrightarrow> visit S node = visit_FunctionDef S (visit S) node"
  by (rule visit_converter) (simp add: DictWalker_methods_def)

lemma merge_info:
  assumes "generic_visit S self node True t = (Inr info, st')"
    and "fst ` set own \<inter> set info_keys = {}"
  shows "dict_or own info = own @ info"
proof -
  have ik: "map fst info = info_keys"
    using generic_visit_info(2)[OF assms(1)] by (simp only: dict_keys_def)
  have keys: "fst ` set info = set info_keys"
    by (simp only: set_map[symmetric] ik)
  have "distinct (map fst info)"
    by (simp only: ik) (simp add: info_keys_def)
  moreover have "fst ` set own \<inter> fst ` set info = {}"
    using assms(2) by (simp only: keys)
  ultimately show ?thesis by (rule dict_or_disjoint)
qed

text \<open>
  What \<open>visit_Compare\<close> returns, when it returns: besides \<open>type\<close> and the position fields
  the record holds exactly \<open>ops\<close> and \<open>comparators\<close>, the list of the converted items of
  \<^verbatim>\<open>node.ops\<close> and the list of the converted items of \<^verbatim>\<open>node.comparators\<close>, each in the
  order of the input. There is no key for \<^verbatim>\<open>node.left\<close>, and nothing relates the two
  lengths: whenever the items of both fields convert and the node has its position, the
  converter returns.
\<close>

lemma compare_record:
  assumes "class_name node = ''Compare''"
  shows "(\<forall>d st'. visit S node st = (Inr d, st') \<longrightarrow>
           (\<exists>ops cmps rops rcmps.
              getattr node ''ops'' = Some ops \<and> iterable ops
            \<and> getattr node ''comparators'' = Some cmps \<and> iterable cmps
            \<and> dict_keys d = [''type'', ''ops'', ''comparators''] @ info_keys
            \<and> dict_get d ''ops'' = Some (PyList rops)
            \<and> dict_get d ''comparators'' = Some (PyList rcmps)
            \<and> list_all2 (converted S) (elems ops) rops
            \<and> list_all2 (converted S) (elems cmps) rcmps))
       \<and> (\<forall>ops cmps.
             getattr node ''ops'' = Some ops \<and> iterable ops
           \<and> getattr node ''comparators'' = Some cmps \<and> iterable cmps
           \<and> (\<forall>x \<in> set (elems ops @ elems cmps). \<forall>s. \<exists>r s'. visit S x s = (Inr r, s'))
           \<and> hasattr node ''lineno'' \<and> hasattr node ''col_offset''
           \<and> hasattr node ''end_lineno'' \<and> hasattr node ''end_col_offset''
           \<longrightarrow> (\<exists>d st'. visit S node st = (Inr d, st')))"
proof (intro conjI allI impI)
  fix d st' assume "visit S node st = (Inr d, st')"
  then have "visit_Compare S (visit S) node st = (Inr d, st')"
    using visit_Compare_eq[OF assms] by simp
  then obtain own info t where
    own: "dict_display [(''type'', str_lit ''Compare''),
            (''ops'', visit_attr_each (visit S) node ''ops''),
            (''comparators'', visit_attr_each (visit S) node ''comparators'')] st = (Inr own, t)"
    and info: "generic_visit S (visit S) node True t = (Inr info, st')"
    and d: "d = dict_or own info"
    by (auto simp: visit_Compare_def dict_or_M_Inr)
  from own obtain r1 r2 s1 s2 where
    o: "visit_attr_each (visit S) node ''ops'' st = (Inr r1, s1)"
    and c: "visit_attr_each (visit S) node ''comparators'' s1 = (Inr r2, s2)"
    and own_eq: "own = [(''type'', PyStr ''Compare''), (''ops'', r1), (''comparators'', r2)]"
    by (auto simp: bindM_Inr)
  from visit_attr_each_Inr[OF o] obtain ops rops where
    ops: "getattr node ''ops'' = Some ops" "iterable ops" "r1 = PyList rops"
      "list_all2 (converted S) (elems ops) rops"
    by blast
  from visit_attr_each_Inr[OF c] obtain cmps rcmps where
    cmps: "getattr node ''comparators'' = Some cmps" "iterable cmps" "r2 = PyList rcmps"
      "list_all2 (converted S) (elems cmps) rcmps"
    by blast
  have "d = own @ info"
    using d merge_info[OF info, of own] by (simp add: own_eq info_keys_def)
  moreover have "dict_keys info = info_keys" using generic_visit_info[OF info] by simp
  ultimately have "dict_keys d = [''type'', ''ops'', ''comparators''] @ info_keys"
    and "dict_get d ''ops'' = Some (PyList rops)"
    and "dict_get d ''comparators'' = Some (PyList rcmps)"
    using own_eq ops(3) cmps(3) by (simp_all add: dict_keys_def dict_get_def)
  with ops cmps show "\<exists>ops cmps rops rcmps.
              getattr node ''ops'' = Some ops \<and> iterable ops
            \<and> getattr node ''comparators'' = Some cmps \<and> iterable cmps
            \<and> dict_keys d = [''type'', ''ops'', ''comparators''] @ info_keys
            \<and> dict_get d ''ops'' = Some (PyList rops)
            \<and> dict_get d ''comparators'' = Some (PyList rcmps)
            \<and> list_all2 (converted S) (elems ops) rops
            \<and> list_all2 (converted S) (elems cmps) rcmps"
    by blast
next
  fix ops cmps
  assume a: "getattr node ''ops'' = Some ops \<and> iterable ops
           \<and> getattr node ''comparators'' = Some cmps \<and> iterable cmps
           \<and> (\<forall>x \<in> set (elems ops @ elems cmps). \<forall>s. \<exists>r s'. visit S x s = (Inr r, s'))
           \<and> hasattr node ''lineno'' \<and> hasattr node ''col_offset''
           \<and> hasattr node ''end_lineno'' \<and> hasattr node ''end_col_offset''"
  from a obtain r1 s1 where o: "visit_attr_each (visit S) node ''ops'' st = (Inr r1, s1)"
    using visit_attr_each_total[of node "''ops''" ops S st] by auto
  from a obtain r2 s2 where c: "visit_attr_each (visit S) node ''comparators'' s1 = (Inr r2, s2)"
    using visit_attr_each_total[of node "''comparators''" cmps S s1] by auto
  from a obtain info where i: "generic_visit S (visit S) node True s2 = (Inr info, s2)"
    using generic_visit_info_total[of node S "visit S" s2] by auto
  have "\<exists>d st'. visit_Compare S (visit S) node st = (Inr d, st')"
    using o c i by (auto simp: visit_Compare_def dict_or_M_Inr bindM_Inr)
  then show "\<exists>d st'. visit S node st = (Inr d, st')"
    using visit_Compare_eq[OF assms] by simp
qed

section \<open>Parsed programs\<close>

text \<open>
  The trees \<^verbatim>\<open>ast.parse\<close> returns (Python 3.9 to 3.11) for a few one-line programs, with
  the fields of every node in the order of its \<^verbatim>\<open>_fields\<close>. Operator and context nodes
  (\<^verbatim>\<open>Sub\<close>, \<^verbatim>\<open>Eq\<close>, \<^verbatim>\<open>Load\<close>, \<^verbatim>\<open>Store\<close>), \<^verbatim>\<open>Module\<close> and \<^verbatim>\<open>arguments\<close> have no position
  attributes in Python's grammar.
  \<^item> \<open>x_is_1\<close> is \<^verbatim>\<open>x = 1\<close>;
  \<^item> \<open>a_minus_b\<close> is \<^verbatim>\<open>a - b\<close>;
  \<^item> \<open>empty_list\<close> is \<^verbatim>\<open>[]\<close>;
  \<^item> \<open>list_eq_x\<close> is \<^verbatim>\<open>[] == x\<close>, and \<open>Compare_node\<close> its comparison;
  \<^item> \<open>a_lt_b\<close> is \<^verbatim>\<open>a < b\<close>, and \<open>Compare_lt\<close> its comparison;
  \<^item> \<open>Compare_chain\<close> is the comparison of \<^verbatim>\<open>a == b is not c\<close>;
  \<^item> \<open>FunctionDef_node PyNone\<close> is the statement \<^verbatim>\<open>def f(): return 1\<close> with the columns
    of \<^verbatim>\<open>def f() -> int: return 1\<close>, whose statement is
    \<open>FunctionDef_node (Name_node ''int'' ''Load'' 11 14)\<close>.
  \<open>repr_at a\<close> is the text Python before 3.14 gives for an AST node that lies at
  address \<open>a\<close>. The text of any other object (\<^verbatim>\<open>None\<close>, a number, a string, a list) does not
  depend on an address in Python; \<open>repr_at a\<close> gives such an object a text made of its
  class name, which no evaluation below reaches.
\<close>

definition position :: "int \<Rightarrow> int \<Rightarrow> int \<Rightarrow> int \<Rightarrow> (string \<times> pyobj) list" where
  "position l c el ec = [(''lineno'', PyInt l), (''col_offset'', PyInt c),
     (''end_lineno'', PyInt el), (''end_col_offset'', PyInt ec)]"

definition Name_node :: "string \<Rightarrow> string \<Rightarrow> int \<Rightarrow> int \<Rightarrow> pyobj" where
  "Name_node x ctx c ec =
     PyAST ''Name'' [(''id'', PyStr x), (''ctx'', PyAST ctx [] [])] (position 1 c 1 ec)"

definition Constant_node :: "int \<Rightarrow> int \<Rightarrow> int \<Rightarrow> pyobj" where
  "Constant_node i c ec =
     PyAST ''Constant'' [(''value'', PyInt i), (''kind'', PyNone)] (position 1 c 1 ec)"

definition Module_node :: "pyobj list \<Rightarrow> pyobj" where
  "Module_node body = PyAST ''Module'' [(''body'', PyList body), (''type_ignores'', PyList [])] []"

definition x_is_1 :: pyobj where
  "x_is_1 = Module_node
     [PyAST ''Assign''
        [(''targets'', PyList [Name_node ''x'' ''Store'' 0 1]),
         (''value'', Constant_node 1 4 5),
         (''type_comment'', PyNone)]
        (position 1 0 1 5)]"

definition a_minus_b :: pyobj where
  "a_minus_b = Module_node
     [PyAST ''Expr''
        [(''value'', PyAST ''BinOp''
           [(''left'', Name_node ''a'' ''Load'' 0 1),
            (''op'', PyAST ''Sub'' [] []),
            (''right'', Name_node ''b'' ''Load'' 4 5)]
           (position 1 0 1 5))]
        (position 1 0 1 5)]"

definition empty_list :: pyobj where
  "empty_list = Module_node
     [PyAST ''Expr''
        [(''value'', PyAST ''List'' [(''elts'', PyList []), (''ctx'', PyAST ''Load'' [] [])]
           (position 1 0 1 2))]
        (position 1 0 1 2)]"

definition Compare_node :: pyobj where
  "Compare_node = PyAST ''Compare''
           [(''left'', PyAST ''List'' [(''elts'', PyList []), (''ctx'', PyAST ''Load'' [] [])]
               (position 1 0 1 2)),
            (''ops'', PyList [PyAST ''Eq'' [] []]),
            (''comparators'', PyList [Name_node ''x'' ''Load'' 6 7])]
           (position 1 0 1 7)"

definition list_eq_x :: pyobj where
  "list_eq_x = Module_node [PyAST ''Expr'' [(''value'', Compare_node)] (position 1 0 1 7)]"

definition Compare_lt :: pyobj where
  "Compare_lt = PyAST ''Compare''
           [(''left'', Name_node ''a'' ''Load'' 0 1),
            (''ops'', PyList [PyAST ''Lt'' [] []]),
            (''comparators'', PyList [Name_node ''b'' ''Load'' 4 5])]
           (position 1 0 1 5)"

definition a_lt_b :: pyobj where
  "a_lt_b = Module_node [PyAST ''Expr'' [(''value'', Compare_lt)] (position 1 0 1 5)]"

definition Compare_chain :: pyobj where
  "Compare_chain = PyAST ''Compare''
           [(''left'', Name_node ''a'' ''Load'' 0 1),
            (''ops'', PyList [PyAST ''Eq'' [] [], PyAST ''IsNot'' [] []]),
            (''comparators'', PyList [Name_node ''b'' ''Load'' 5 6, Name_node ''c'' ''Load'' 14 15])]
           (position 1 0 1 15)"

definition FunctionDef_node :: "pyobj \<Rightarrow> pyobj" where
  "FunctionDef_node returns = PyAST ''FunctionDef''
     [(''name'', PyStr ''f''),
      (''args'', PyAST ''arguments''
         [(''posonlyargs'', PyList []), (''args'', PyList []), (''vararg'', PyNone),
          (''kwonlyargs'', PyList []), (''kw_defaults'', PyList []), (''kwarg'', PyNone),
          (''defaults'', PyList [])] []),
      (''body'', PyList [PyAST ''Return'' [(''value'', Constant_node 1 23 24)] (position 1 16 1 24)]),
      (''decorator_list'', PyList []),
      (''returns'', returns),
      (''type_comment'', PyNone)]
     (position 1 0 1 24)"

definition repr_at :: "string \<Rightarrow> pyobj \<Rightarrow> string" where
  "repr_at address node =
     (if is_AST node then ''<ast.'' @ class_name node @ '' object at '' @ address @ ''>''
      else ''<'' @ class_name node @ ''>'')"

text \<open>Unfolding these evaluates the program on a concrete tree.\<close>

lemmas example_defs = position_def Name_node_def Constant_node_def Module_node_def x_is_1_def
  a_minus_b_def empty_list_def Compare_node_def list_eq_x_def Compare_lt_def a_lt_b_def
  Compare_chain_def FunctionDef_node_def repr_at_def init_state_def

lemmas eval_defs = visit.simps NodeVisitor_visit_def DictWalker_methods_def visit_defs
  generic_visit_def bindM_def returnM_def raise_def attr_def missing_add_def print_def
  stdout_write_def visit_attr_def visit_attr_each_def visit_attr_opt_def visit_attr_each_opt_def
  visit_value_def visit_each_def visit_opt_def visit_each_opt_def iterate_def
  dict_or_M_def str_lit_def dict_or_def hasattr_def visit_if_AST_def visit_field_value_def
  NodeVisitor_generic_visit_def main_def json_dump_def report_def

text \<open>The kinds of the AST nodes of a tree that have no converter, and: every AST node
  of the tree has one.\<close>

definition unconverted_kinds :: "pyobj \<Rightarrow> string list" where
  "unconverted_kinds tree =
     remdups (map class_name (filter (\<lambda>m. is_AST m \<and> \<not> has_converter m) (descendants tree)))"

definition all_converted :: "pyobj \<Rightarrow> bool" where
  "all_converted tree = list_all (\<lambda>m. \<not> is_AST m \<or> has_converter m) (descendants tree)"

lemmas tree_defs = descendants.simps child_list_def has_converter_def DictWalker_methods_def
  unconverted_kinds_def all_converted_def


text \<open>The chain \<^verbatim>\<open>a == b is not c\<close>: two operators and two right-hand operands, each list
  in the order of the source, and no trace of the left operand \<^verbatim>\<open>a\<close>.\<close>

lemma compare_record_chain:
  "visit (repr_at ''0x7f3e5c1b2a90'') Compare_chain init_state =
       (Inr [(''type'', PyStr ''Compare''),
             (''ops'', PyList [PyDict [(''type'', PyStr ''Eq'')], PyDict [(''type'', PyStr ''IsNot'')]]),
             (''comparators'', PyList
                [PyDict [(''type'', PyStr ''Name''), (''id'', PyStr ''b''),
                   (''ctx'', PyDict [(''type'', PyStr ''Load'')]),
                   (''lineno'', PyInt 1), (''col_offset'', PyInt 5), (''end_lineno'', PyInt 1),
                   (''end_col_offset'', PyInt 6), (''type_comment'', PyNone)],
                 PyDict [(''type'', PyStr ''Name''), (''id'', PyStr ''c''),
                   (''ctx'', PyDict [(''type'', PyStr ''Load'')]),
                   (''lineno'', PyInt 1), (''col_offset'', PyInt 14), (''end_lineno'', PyInt 1),
                   (''end_col_offset'', PyInt 15), (''type_comment'', PyNone)]]),
             (''lineno'', PyInt 1), (''col_offset'', PyInt 0), (''end_lineno'', PyInt 1),
             (''end_col_offset'', PyInt 15), (''type_comment'', PyNone)], init_state)"
  by (simp add: example_defs eval_defs)

text \<open>The report follows the order of the run, not the order in which the kinds were
  recorded.\<close>

lemma report_order:
  "report (\<lambda>kind. if kind = ''Set'' then 0 else 1) \<lparr>missing = [''List'', ''Set''], stdout = []\<rparr> =
     (Inr (), \<lparr>missing = [''List'', ''Set''],
               stdout = [''Set'' @ [CHR 0x0A], ''List'' @ [CHR 0x0A]]\<rparr>)
   \<and> report (\<lambda>kind. if kind = ''List'' then 0 else 1) \<lparr>missing = [''List'', ''Set''], stdout = []\<rparr> =
     (Inr (), \<lparr>missing = [''List'', ''Set''],
               stdout = [''List'' @ [CHR 0x0A], ''Set'' @ [CHR 0x0A]]\<rparr>)"
  by (simp add: report_def bindM_def returnM_def print_def stdout_write_def)

section \<open>The claims\<close>

text \<open>
  C1. The claim: dispatching returns a record for every node of a well-formed tree,
  and the fallback never fails on any node kind. The code does otherwise: on
  \<^verbatim>\<open>a - b\<close> the operator node \<^verbatim>\<open>Sub()\<close> has no converter, the fallback records its kind
  and prints its line, and then \<^verbatim>\<open>node.lineno\<close> raises \<^verbatim>\<open>AttributeError\<close>, since an operator
  node has no position. The exception ends the program: no JSON is written, and the
  recorded kind is never reported.
\<close>

theorem fallback_raises_without_position:
  "main S rank dumps a_minus_b init_state =
     (Inl AttributeError,
      \<lparr>missing = [''Sub''],
       stdout = [''Unimplemented Node: '' @ S (PyAST ''Sub'' [] []) @ [CHR 0x0A]]\<rparr>)"
  by (simp add: example_defs eval_defs)

text \<open>
  C4. For every kind with a converter of its own, the \<open>type\<close> field of the record that
  \<open>visit\<close> returns for a node of that kind is the kind's name, and it is not the
  fallback's placeholder \<^verbatim>\<open>"Unimplemented: ..."\<close>, although the position information from
  \<open>generic_visit\<close> is merged in after the converter's own fields.
\<close>

theorem specific_converter_type:
  assumes "has_converter node" and "visit S node st = (Inr d, st')"
  shows "dict_get d ''type'' = Some (PyStr (class_name node))
       \<and> dict_get d ''type'' \<noteq> Some (PyStr (''Unimplemented: '' @ S node))"
  using shaped_type[OF visit_shaped[OF assms]] assms(1)
    converted_not_placeholder[of "class_name node" "S node"]
  by (simp add: has_converter_iff)

theorem specific_converter_type_witness:
  "has_converter (Name_node ''x'' ''Load'' 6 7)
   \<and> visit (repr_at ''0x7f3e5c1b2a90'') (Name_node ''x'' ''Load'' 6 7) init_state =
       (Inr [(''type'', PyStr ''Name''), (''id'', PyStr ''x''),
             (''ctx'', PyDict [(''type'', PyStr ''Load'')]),
             (''lineno'', PyInt 1), (''col_offset'', PyInt 6), (''end_lineno'', PyInt 1),
             (''end_col_offset'', PyInt 7), (''type_comment'', PyNone)], init_state)
   \<and> dict_get [(''type'', PyStr ''Name''), (''id'', PyStr ''x''),
             (''ctx'', PyDict [(''type'', PyStr ''Load'')]),
             (''lineno'', PyInt 1), (''col_offset'', PyInt 6), (''end_lineno'', PyInt 1),
             (''end_col_offset'', PyInt 7), (''type_comment'', PyNone)] ''type'' =
       Some (PyStr (class_name (Name_node ''x'' ''Load'' 6 7)))"
proof -
  have h: "has_converter (Name_node ''x'' ''Load'' 6 7)"
    by (simp add: has_converter_iff converted_kinds_def Name_node_def)
  have r: "visit (repr_at ''0x7f3e5c1b2a90'') (Name_node ''x'' ''Load'' 6 7) init_state =
       (Inr [(''type'', PyStr ''Name''), (''id'', PyStr ''x''),
             (''ctx'', PyDict [(''type'', PyStr ''Load'')]),
             (''lineno'', PyInt 1), (''col_offset'', PyInt 6), (''end_lineno'', PyInt 1),
             (''end_col_offset'', PyInt 7), (''type_comment'', PyNone)], init_state)"
    by (simp add: example_defs eval_defs)
  show ?thesis
    using specific_converter_type[OF h r] h r by simp
qed

text \<open>
  C2. The claim: every record, whichever converter made it, has the fields \<open>type\<close>,
  \<open>lineno\<close>, \<open>col_offset\<close>, \<open>end_lineno\<close>, \<open>end_col_offset\<close> and \<open>type_comment\<close>. The converters
  of twelve kinds return their own fields only (in \<open>visit_Module\<close> and \<open>visit_Load\<close> the
  merge is commented out): the record of a \<^verbatim>\<open>Load()\<close> node is \<^verbatim>\<open>{"type": "Load"}\<close>.
\<close>

theorem Load_record_has_no_position:
  "fst (visit (repr_at ''0x7f3e5c1b2a90'') (PyAST ''Load'' [] []) init_state) =
     Inr [(''type'', PyStr ''Load'')]
   \<and> ''lineno'' \<notin> set (dict_keys [(''type'', PyStr ''Load'')])"
  by (simp add: example_defs eval_defs dict_keys_def)

text \<open>
  C2, amended. Every record \<open>visit\<close> returns has the field \<open>type\<close>. The records of the
  kinds in \<open>bare_kinds\<close> (Module, Load, Store, BitOr, Not, IsNot, Eq, Add, keyword,
  arguments, comprehension, withitem) have none of the five position fields; every
  other record, the fallback's included, has all five.
\<close>

theorem record_fields:
  assumes "visit S node st = (Inr d, st')"
  shows "''type'' \<in> set (dict_keys d)
       \<and> (if class_name node \<in> set bare_kinds
          then set (dict_keys d) \<inter> set info_keys = {}
          else set info_keys \<subseteq> set (dict_keys d))"
proof (cases "has_converter node")
  case True
  from visit_shaped[OF True assms] obtain own info
    where d: "d = (''type'', PyStr (class_name node)) # own @ info"
      and own: "set (dict_keys own) \<inter> set info_keys = {}"
      and bare: "class_name node \<in> set bare_kinds \<Longrightarrow> info = []"
      and merged: "class_name node \<notin> set bare_kinds \<Longrightarrow> dict_keys info = info_keys"
    by (rule shapedE) blast
  show ?thesis
  proof (cases "class_name node \<in> set bare_kinds")
    case True
    then show ?thesis using d own bare by (auto simp: dict_keys_def info_keys_def)
  next
    case False
    then have "dict_keys info = info_keys" using merged by simp
    then show ?thesis using d False by (auto simp: dict_keys_def)
  qed
next
  case False
  then have nb: "class_name node \<notin> set bare_kinds" using bare_kinds_converted by blast
  from assms False have "generic_visit S (visit S) node False st = (Inr d, st')"
    by (simp add: visit_fallback)
  from fallback_record[OF this] show ?thesis
    using nb by (auto simp: dict_keys_def info_keys_def)
qed

theorem record_fields_witness:
  "visit (repr_at ''0x7f3e5c1b2a90'') (Constant_node 1 4 5) init_state =
     (Inr [(''type'', PyStr ''Constant''), (''value'', PyInt 1), (''kind'', PyNone),
           (''lineno'', PyInt 1), (''col_offset'', PyInt 4), (''end_lineno'', PyInt 1),
           (''end_col_offset'', PyInt 5), (''type_comment'', PyNone)], init_state)
   \<and> class_name (Constant_node 1 4 5) \<notin> set bare_kinds
   \<and> ''type'' \<in> set (dict_keys
          [(''type'', PyStr ''Constant''), (''value'', PyInt 1), (''kind'', PyNone),
           (''lineno'', PyInt 1), (''col_offset'', PyInt 4), (''end_lineno'', PyInt 1),
           (''end_col_offset'', PyInt 5), (''type_comment'', PyNone)])
   \<and> set info_keys \<subseteq> set (dict_keys
          [(''type'', PyStr ''Constant''), (''value'', PyInt 1), (''kind'', PyNone),
           (''lineno'', PyInt 1), (''col_offset'', PyInt 4), (''end_lineno'', PyInt 1),
           (''end_col_offset'', PyInt 5), (''type_comment'', PyNone)])"
proof -
  have r: "visit (repr_at ''0x7f3e5c1b2a90'') (Constant_node 1 4 5) init_state =
     (Inr [(''type'', PyStr ''Constant''), (''value'', PyInt 1), (''kind'', PyNone),
           (''lineno'', PyInt 1), (''col_offset'', PyInt 4), (''end_lineno'', PyInt 1),
           (''end_col_offset'', PyInt 5), (''type_comment'', PyNone)], init_state)"
    by (simp add: example_defs eval_defs)
  have nb: "class_name (Constant_node 1 4 5) \<notin> set bare_kinds"
    by (simp add: Constant_node_def bare_kinds_def)
  show ?thesis
    using record_fields[OF r] r nb by simp
qed



text \<open>
  C8. In info-only mode (\<open>just_get_info\<close> true) \<open>generic_visit\<close> leaves the state as it
  was (the missing-kind set and standard output: no kind is recorded, no line printed),
  calls neither the walker (no child is visited) nor the text function, returns exactly
  when the node has the four position attributes, and what it returns are the five
  position fields with the node's values (\<open>type_comment\<close> is \<open>None\<close> when the node has no
  such attribute).
\<close>

theorem info_only_mode:
  "snd (generic_visit S self node True st) = st
   \<and> generic_visit S self node True = generic_visit S' self' node True
   \<and> ((\<exists>d. fst (generic_visit S self node True st) = Inr d) \<longleftrightarrow>
        hasattr node ''lineno'' \<and> hasattr node ''col_offset'' \<and>
        hasattr node ''end_lineno'' \<and> hasattr node ''end_col_offset'')
   \<and> (\<forall>d. fst (generic_visit S self node True st) = Inr d \<longrightarrow>
        dict_keys d = info_keys
        \<and> (\<forall>k \<in> {''lineno'', ''col_offset'', ''end_lineno'', ''end_col_offset''}.
             dict_get d k = getattr node k)
        \<and> dict_get d ''type_comment'' =
            Some (case getattr node ''type_comment'' of Some v \<Rightarrow> v | None \<Rightarrow> PyNone))"
proof (intro conjI allI impI)
  show "snd (generic_visit S self node True st) = st"
    by (simp add: generic_visit_def bindM_def returnM_def raise_def attr_def split: option.splits)
  show "generic_visit S self node True = generic_visit S' self' node True"
    by (simp add: generic_visit_True)
  show "(\<exists>d. fst (generic_visit S self node True st) = Inr d) \<longleftrightarrow>
        hasattr node ''lineno'' \<and> hasattr node ''col_offset'' \<and>
        hasattr node ''end_lineno'' \<and> hasattr node ''end_col_offset''"
    by (auto simp: generic_visit_def bindM_def returnM_def raise_def attr_def hasattr_def
        split: option.splits)
next
  fix d assume "fst (generic_visit S self node True st) = Inr d"
  then have r: "generic_visit S self node True st = (Inr d, snd (generic_visit S self node True st))"
    by (metis prod.collapse)
  from generic_visit_info[OF r]
  show "dict_keys d = info_keys"
    and "\<forall>k \<in> {''lineno'', ''col_offset'', ''end_lineno'', ''end_col_offset''}. dict_get d k = getattr node k"
    and "dict_get d ''type_comment'' = Some (case getattr node ''type_comment'' of Some v \<Rightarrow> v | None \<Rightarrow> PyNone)"
    by blast+
qed

theorem info_only_mode_witness:
  "generic_visit (repr_at ''0x7f3e5c1b2a90'') (visit (repr_at ''0x7f3e5c1b2a90''))
       (Name_node ''x'' ''Load'' 6 7) True \<lparr>missing = [''List''], stdout = [''[]'']\<rparr> =
     (Inr [(''lineno'', PyInt 1), (''col_offset'', PyInt 6), (''end_lineno'', PyInt 1),
           (''end_col_offset'', PyInt 7), (''type_comment'', PyNone)],
      \<lparr>missing = [''List''], stdout = [''[]'']\<rparr>)
   \<and> dict_keys [(''lineno'', PyInt 1), (''col_offset'', PyInt 6), (''end_lineno'', PyInt 1),
           (''end_col_offset'', PyInt 7), (''type_comment'', PyNone)] = info_keys"
proof -
  let ?st = "\<lparr>missing = [''List''], stdout = [''[]'']\<rparr>"
  let ?g = "generic_visit (repr_at ''0x7f3e5c1b2a90'') (visit (repr_at ''0x7f3e5c1b2a90''))
       (Name_node ''x'' ''Load'' 6 7) True ?st"
  have r: "?g = (Inr [(''lineno'', PyInt 1), (''col_offset'', PyInt 6), (''end_lineno'', PyInt 1),
           (''end_col_offset'', PyInt 7), (''type_comment'', PyNone)], ?st)"
    by (simp add: example_defs eval_defs)
  from info_only_mode[of "repr_at ''0x7f3e5c1b2a90''" "visit (repr_at ''0x7f3e5c1b2a90'')"
      "Name_node ''x'' ''Load'' 6 7" ?st]
  have "\<forall>d. fst ?g = Inr d \<longrightarrow> dict_keys d = info_keys" by blast
  then show ?thesis using r by simp
qed

text \<open>
  C9. The claim: for every \<^verbatim>\<open>Compare\<close> node the converter stores the operator sequence
  and the right-hand comparator sequence of the node. Of the ten comparison operators
  of Python's grammar only \<^verbatim>\<open>Eq\<close> and \<^verbatim>\<open>IsNot\<close> have a converter. Each of the others goes to
  the fallback, which raises \<^verbatim>\<open>AttributeError\<close> at \<^verbatim>\<open>node.lineno\<close>, since an operator node
  has no position: on \<^verbatim>\<open>a < b\<close> the converter of the \<^verbatim>\<open>Compare\<close> node raises while it
  converts \<^verbatim>\<open>node.ops\<close> and stores nothing, and the program ends without JSON. (Where the
  converter returns, what it stores is as the claim says: \<open>compare_record\<close>.)
\<close>

theorem compare_raises_on_unconverted_operator:
  "class_name Compare_lt = ''Compare''
   \<and> visit S Compare_lt init_state =
       (Inl AttributeError,
        \<lparr>missing = [''Lt''],
         stdout = [''Unimplemented Node: '' @ S (PyAST ''Lt'' [] []) @ [CHR 0x0A]]\<rparr>)
   \<and> main S rank dumps a_lt_b init_state =
       (Inl AttributeError,
        \<lparr>missing = [''Lt''],
         stdout = [''Unimplemented Node: '' @ S (PyAST ''Lt'' [] []) @ [CHR 0x0A]]\<rparr>)"
  by (simp add: example_defs eval_defs)

text \<open>
  C10. For a \<^verbatim>\<open>FunctionDef\<close> node the record stores the return annotation
  (\<^verbatim>\<open>node.returns\<close>) under the key \<^verbatim>\<open>"return"\<close>, and has no key \<^verbatim>\<open>"returns"\<close>: the value is
  \<open>None\<close> when the annotation is absent, and the converted annotation otherwise.
\<close>

theorem function_return_key:
  assumes "class_name node = ''FunctionDef''" and "visit S node st = (Inr d, st')"
  shows "dict_keys d =
           [''type'', ''name'', ''args'', ''body'', ''decorator_list'', ''return''] @ info_keys
       \<and> ''returns'' \<notin> set (dict_keys d)
       \<and> (\<exists>a r. getattr node ''returns'' = Some a \<and> dict_get d ''return'' = Some r
            \<and> (if a = PyNone then r = PyNone else converted S a r))"
proof -
  have "visit_FunctionDef S (visit S) node st = (Inr d, st')"
    using assms(2) visit_FunctionDef_eq[OF assms(1)] by simp
  then obtain own info t where
    own: "dict_display [(''type'', str_lit ''FunctionDef''),
            (''name'', attr node ''name''),
            (''args'', visit_attr (visit S) node ''args''),
            (''body'', visit_attr_each (visit S) node ''body''),
            (''decorator_list'', visit_attr_each (visit S) node ''decorator_list''),
            (''return'', visit_attr_opt (visit S) node ''returns'')] st = (Inr own, t)"
    and info: "generic_visit S (visit S) node True t = (Inr info, st')"
    and d: "d = dict_or own info"
    by (auto simp: visit_FunctionDef_def dict_or_M_Inr)
  from own obtain n a b dl r s1 s2 where
    ret: "visit_attr_opt (visit S) node ''returns'' s1 = (Inr r, s2)"
    and own_eq: "own = [(''type'', PyStr ''FunctionDef''), (''name'', n), (''args'', a),
        (''body'', b), (''decorator_list'', dl), (''return'', r)]"
    by (auto simp: bindM_Inr)
  from visit_attr_opt_Inr[OF ret] obtain v where
    v: "getattr node ''returns'' = Some v" "if v = PyNone then r = PyNone else converted S v r"
    by blast
  have "d = own @ info"
    using d merge_info[OF info, of own] by (simp add: own_eq info_keys_def)
  moreover have "dict_keys info = info_keys" using generic_visit_info[OF info] by simp
  ultimately have "dict_keys d =
           [''type'', ''name'', ''args'', ''body'', ''decorator_list'', ''return''] @ info_keys"
    and "dict_get d ''return'' = Some r"
    using own_eq by (simp_all add: dict_keys_def dict_get_def)
  moreover from this(1) have "''returns'' \<notin> set (dict_keys d)"
    by (simp add: info_keys_def)
  ultimately show ?thesis using v by blast
qed

theorem function_return_key_witness:
  "class_name (FunctionDef_node PyNone) = ''FunctionDef''
   \<and> fst (visit (repr_at ''0x7f3e5c1b2a90'') (FunctionDef_node PyNone) init_state) =
       Inr [(''type'', PyStr ''FunctionDef''), (''name'', PyStr ''f''),
            (''args'', PyDict [(''type'', PyStr ''arguments''), (''posonlyargs'', PyList []),
                (''args'', PyList []), (''vararg'', PyNone), (''kwonlyargs'', PyList []),
                (''kw_defaults'', PyList []), (''kwarg'', PyNone), (''defaults'', PyList [])]),
            (''body'', PyList [PyDict [(''type'', PyStr ''Return''),
                (''value'', PyDict [(''type'', PyStr ''Constant''), (''value'', PyInt 1),
                    (''kind'', PyNone), (''lineno'', PyInt 1), (''col_offset'', PyInt 23),
                    (''end_lineno'', PyInt 1), (''end_col_offset'', PyInt 24),
                    (''type_comment'', PyNone)]),
                (''lineno'', PyInt 1), (''col_offset'', PyInt 16), (''end_lineno'', PyInt 1),
                (''end_col_offset'', PyInt 24), (''type_comment'', PyNone)]]),
            (''decorator_list'', PyList []), (''return'', PyNone),
            (''lineno'', PyInt 1), (''col_offset'', PyInt 0), (''end_lineno'', PyInt 1),
            (''end_col_offset'', PyInt 24), (''type_comment'', PyNone)]
   \<and> (\<exists>d r. fst (visit (repr_at ''0x7f3e5c1b2a90'')
                 (FunctionDef_node (Name_node ''int'' ''Load'' 11 14)) init_state) = Inr d
        \<and> dict_get d ''return'' = Some r
        \<and> converted (repr_at ''0x7f3e5c1b2a90'') (Name_node ''int'' ''Load'' 11 14) r)"
proof -
  let ?R = "repr_at ''0x7f3e5c1b2a90''"
  have h: "class_name (FunctionDef_node a) = ''FunctionDef''" for a
    by (simp add: FunctionDef_node_def)
  have r1: "visit ?R (FunctionDef_node PyNone) init_state =
      (Inr [(''type'', PyStr ''FunctionDef''), (''name'', PyStr ''f''),
            (''args'', PyDict [(''type'', PyStr ''arguments''), (''posonlyargs'', PyList []),
                (''args'', PyList []), (''vararg'', PyNone), (''kwonlyargs'', PyList []),
                (''kw_defaults'', PyList []), (''kwarg'', PyNone), (''defaults'', PyList [])]),
            (''body'', PyList [PyDict [(''type'', PyStr ''Return''),
                (''value'', PyDict [(''type'', PyStr ''Constant''), (''value'', PyInt 1),
                    (''kind'', PyNone), (''lineno'', PyInt 1), (''col_offset'', PyInt 23),
                    (''end_lineno'', PyInt 1), (''end_col_offset'', PyInt 24),
                    (''type_comment'', PyNone)]),
                (''lineno'', PyInt 1), (''col_offset'', PyInt 16), (''end_lineno'', PyInt 1),
                (''end_col_offset'', PyInt 24), (''type_comment'', PyNone)]]),
            (''decorator_list'', PyList []), (''return'', PyNone),
            (''lineno'', PyInt 1), (''col_offset'', PyInt 0), (''end_lineno'', PyInt 1),
            (''end_col_offset'', PyInt 24), (''type_comment'', PyNone)], init_state)"
    by (simp add: example_defs eval_defs)
  obtain d2 where r2: "visit ?R (FunctionDef_node (Name_node ''int'' ''Load'' 11 14)) init_state =
      (Inr d2, init_state)"
    by (simp add: example_defs eval_defs)
  have ga: "getattr (FunctionDef_node (Name_node ''int'' ''Load'' 11 14)) ''returns'' =
      Some (Name_node ''int'' ''Load'' 11 14)"
    by (simp add: FunctionDef_node_def)
  have ne: "Name_node ''int'' ''Load'' 11 14 \<noteq> PyNone" by (simp add: Name_node_def)
  from function_return_key[OF h r2] ga ne obtain r where
    "dict_get d2 ''return'' = Some r" "converted ?R (Name_node ''int'' ''Load'' 11 14) r"
    by auto
  then show ?thesis using h[of PyNone] r1 r2 by auto
qed

text \<open>
  C5. The claim: for any node whose kind has no converter the fallback records the
  kind, returns a record of the placeholder \<open>type\<close> and the position fields, and the
  kind is reported once at the end. The code does so only for a node that has position
  attributes. For an operator node such as \<^verbatim>\<open>Sub()\<close> the fallback records the kind and
  prints its line, and then raises \<^verbatim>\<open>AttributeError\<close> at \<^verbatim>\<open>node.lineno\<close>: no record is
  returned, and on a whole program nothing is reported.
\<close>

theorem fallback_raises_on_operator:
  "\<not> has_converter (PyAST ''Sub'' [] [])
   \<and> generic_visit S (visit S) (PyAST ''Sub'' [] []) False init_state =
       (Inl AttributeError,
        \<lparr>missing = [''Sub''],
         stdout = [''Unimplemented Node: '' @ S (PyAST ''Sub'' [] []) @ [CHR 0x0A]]\<rparr>)"
  by (simp add: example_defs eval_defs tree_defs)

text \<open>
  C6. The claim: after the traversal the missing-kind set holds exactly the kinds of
  the tree that have no converter. \<open>visit_Compare\<close> never visits \<^verbatim>\<open>node.left\<close>
  (\<open>visit_BinOp\<close> does visit its \<^verbatim>\<open>left\<close>): in \<^verbatim>\<open>[] == x\<close> the left operand is a \<^verbatim>\<open>List\<close> node,
  the one kind of the tree without a converter, and the program ends with an empty
  missing-kind set and reports nothing after the JSON text.
\<close>

theorem unvisited_left_operand:
  "unconverted_kinds list_eq_x = [''List'']
   \<and> snd (main S rank (\<lambda>obj. Inr text) list_eq_x init_state) =
       \<lparr>missing = [], stdout = [text]\<rparr>"
  by (simp add: example_defs eval_defs tree_defs)




end
